theory Spec2Isabelle
  imports Main
begin

section \<open>Tail reader (tail-reader.ts)\<close>

text \<open>
  Paths and file contents are byte strings. A file system maps a path to the bytes of the
  file, or to \<open>None\<close> when \<open>fs.stat\<close> fails. The bytes of a file are taken to be stable
  during one call, and decoding as UTF-8 is the identity on them (the line feed is the
  byte 0x0A in every position of a UTF-8 text). Byte offsets and sizes are integers, so
  \<open>Math.floor\<close> is the identity on a cursor and \<open>Number.isFinite\<close> holds for it.
\<close>

type_synonym path = string
type_synonym filesystem = "path \<Rightarrow> string option"

definition DEFAULT_MAX_BYTES :: int where
  "DEFAULT_MAX_BYTES = 1000000"

record TailReadResult =
  cursor :: int
  fsize :: int
  lines :: "string list"
  truncated :: bool
  reset :: bool

text \<open>\<open>text.split("\n")\<close>: the pieces between line feeds; the empty text gives one empty piece.\<close>

fun split_nl :: "string \<Rightarrow> string list" where
  "split_nl [] = [[]]"
| "split_nl (c # cs) =
     (if c = CHR 0x0A then [] # split_nl cs
      else (case split_nl cs of [] \<Rightarrow> [[c]] | l # ls \<Rightarrow> (c # l) # ls))"

text \<open>
  Lines 46 to 72 of \<open>readLogSlice\<close>: from the supplied cursor, the size and the cap, the byte
  the read starts at and the two flags, as the triple \<open>(start, reset, truncated)\<close>.
\<close>

definition readLogSlice_start :: "int option \<Rightarrow> int \<Rightarrow> int \<Rightarrow> int \<times> bool \<times> bool" where
  "readLogSlice_start cursorParam sz maxBytes =
     (case cursorParam of
        Some c0 \<Rightarrow>
          (let c = max 0 c0 in
           if c > sz then (0, True, False)
           else if sz - c > maxBytes then (max 0 (sz - maxBytes), True, True)
           else (c, False, False))
      | None \<Rightarrow>
          (let s = max 0 (sz - maxBytes) in (s, False, s > 0)))"

text \<open>\<open>lines.slice(0, -1)\<close> when the last piece is empty.\<close>

definition dropTrailingEmpty :: "string list \<Rightarrow> string list" where
  "dropTrailingEmpty ls = (if ls \<noteq> [] \<and> last ls = [] then butlast ls else ls)"

definition readLogSlice :: "filesystem \<Rightarrow> path \<Rightarrow> int option \<Rightarrow> int option \<Rightarrow> TailReadResult" where
  "readLogSlice fs file cursorParam maxBytesParam =
     (let maxBytes = (case maxBytesParam of Some m \<Rightarrow> m | None \<Rightarrow> DEFAULT_MAX_BYTES) in
      case fs file of
        None \<Rightarrow> \<lparr>cursor = 0, fsize = 0, lines = [], truncated = False, reset = False\<rparr>
      | Some content \<Rightarrow>
          (let sz = int (length content) in
           case readLogSlice_start cursorParam sz maxBytes of
             (start, rst, trunc) \<Rightarrow>
               if sz = 0 \<or> sz \<le> start
               then \<lparr>cursor = sz, fsize = sz, lines = [], truncated = trunc, reset = rst\<rparr>
               else
                 (let prefix = (if start > 0 then [content ! (nat start - 1)] else []);
                      text = drop (nat start) content;
                      lines0 = split_nl text;
                      lines1 = (if start > 0 \<and> prefix \<noteq> [CHR 0x0A] then drop 1 lines0 else lines0)
                  in \<lparr>cursor = sz, fsize = sz, lines = dropTrailingEmpty lines1,
                       truncated = trunc, reset = rst\<rparr>)))"

text \<open>\<open>readNewLines\<close> returns \<open>(lines, newCursor, fileSize, reset)\<close>.\<close>

definition readNewLines :: "filesystem \<Rightarrow> path \<Rightarrow> int \<Rightarrow> int option
    \<Rightarrow> string list \<times> int \<times> int \<times> bool" where
  "readNewLines fs file cursorParam maxBytesParam =
     (let result = readLogSlice fs file (Some cursorParam) maxBytesParam
      in (lines result, cursor result, fsize result, reset result))"

section \<open>JavaScript values and strings\<close>

text \<open>
  The value \<open>JSON.parse\<close> returns: \<open>None\<close> of type \<open>json option\<close> stands for \<open>undefined\<close>.
  JSON numbers are the integers (level ids, sequence numbers, counts and millisecond
  timestamps). A string is the sequence of the UTF-8 bytes of its text; the length of a
  string, \<open>slice\<close> and the mapping to lower case are those of ASCII text. An object lists
  its properties, each key once.
\<close>

datatype json = JNull | JBool bool | JNumber int | JString string
  | JArray "json list" | JObject "(string \<times> json) list"

datatype error = TypeError | RangeError | SyntaxError | IngestorClosed | StoreError

text \<open>
  What the parsers take from the JavaScript runtime: \<open>JSON.parse\<close> (\<open>None\<close> when it throws),
  the decimal text of a number, \<open>new Date(v).toISOString()\<close> (the text, or the exception it
  throws: a RangeError for a value that is no date) and \<open>new Date().toISOString()\<close>, the
  clock being read once per batch.
\<close>

record js_runtime =
  JSON_parse :: "string \<Rightarrow> json option"
  Number_toString :: "int \<Rightarrow> string"
  Date_toISOString :: "json \<Rightarrow> error + string"
  now_ISO :: string

definition truthy :: "json option \<Rightarrow> bool" where
  "truthy v = (case v of
       None \<Rightarrow> False
     | Some JNull \<Rightarrow> False
     | Some (JBool b) \<Rightarrow> b
     | Some (JNumber n) \<Rightarrow> n \<noteq> 0
     | Some (JString s) \<Rightarrow> s \<noteq> []
     | Some (JArray xs) \<Rightarrow> True
     | Some (JObject kvs) \<Rightarrow> True)"

text \<open>
  Reading the property \<open>k\<close> of a value: an own property of an object; \<open>undefined\<close> on every
  other value, for the keys the parsers read there (none of them is a property of a string,
  a number, a boolean or an array; the key \<open>0\<close> is read from the parsed line only, which is
  an object, its text starting with a brace). The parsers read properties of \<open>null\<close> and
  \<open>undefined\<close> through \<open>?.\<close> only.
\<close>

definition getProp :: "json option \<Rightarrow> string \<Rightarrow> json option" where
  "getProp v k = (case v of Some (JObject kvs) \<Rightarrow> map_of kvs k | _ \<Rightarrow> None)"

definition isString :: "json option \<Rightarrow> bool" where
  "isString v = (case v of Some (JString s) \<Rightarrow> True | _ \<Rightarrow> False)"

definition isNumber :: "json option \<Rightarrow> bool" where
  "isNumber v = (case v of Some (JNumber n) \<Rightarrow> True | _ \<Rightarrow> False)"

text \<open>\<open>typeof v === "object"\<close>: objects, arrays and \<open>null\<close>.\<close>

definition isObjectType :: "json option \<Rightarrow> bool" where
  "isObjectType v = (case v of
       Some JNull \<Rightarrow> True | Some (JArray xs) \<Rightarrow> True | Some (JObject kvs) \<Rightarrow> True | _ \<Rightarrow> False)"

fun join_comma :: "string list \<Rightarrow> string" where
  "join_comma [] = []"
| "join_comma [x] = x"
| "join_comma (x # y # ys) = x @ '','' @ join_comma (y # ys)"

text \<open>The results of a list of evaluations, or the first exception among them.\<close>

fun sequence_results :: "(error + 'a) list \<Rightarrow> error + 'a list" where
  "sequence_results [] = Inr []"
| "sequence_results (r # rs) =
     (case r of
        Inl err \<Rightarrow> Inl err
      | Inr x \<Rightarrow> (case sequence_results rs of Inl err \<Rightarrow> Inl err | Inr xs \<Rightarrow> Inr (x # xs)))"

text \<open>
  The text a template literal puts for a value: an array joins the texts of its elements
  with commas, \<open>null\<close> giving the empty text there. An object gives \<open>[object Object]\<close>
  through the \<open>toString\<close> of \<open>Object.prototype\<close>, unless it has a property \<open>toString\<close> of its
  own: that is a JSON value, which cannot be called, the \<open>valueOf\<close> that is tried next
  returns no primitive value, and the conversion throws a TypeError.
\<close>

fun json_ToString :: "(int \<Rightarrow> string) \<Rightarrow> json \<Rightarrow> error + string" where
  "json_ToString num JNull = Inr ''null''"
| "json_ToString num (JBool b) = Inr (if b then ''true'' else ''false'')"
| "json_ToString num (JNumber n) = Inr (num n)"
| "json_ToString num (JString s) = Inr s"
| "json_ToString num (JArray xs) =
     (case sequence_results (map (\<lambda>x. if x = JNull then Inr [] else json_ToString num x) xs) of
        Inl err \<Rightarrow> Inl err
      | Inr parts \<Rightarrow> Inr (join_comma parts))"
| "json_ToString num (JObject kvs) =
     (if map_of kvs ''toString'' = None then Inr ''[object Object]'' else Inl TypeError)"

definition ToString :: "js_runtime \<Rightarrow> json option \<Rightarrow> error + string" where
  "ToString rt v = (case v of
       None \<Rightarrow> Inr ''undefined''
     | Some j \<Rightarrow> json_ToString (Number_toString rt) j)"

text \<open>The template literal \<open>prefix${v}\<close>, as a string value.\<close>

definition template :: "js_runtime \<Rightarrow> string \<Rightarrow> json option \<Rightarrow> error + string" where
  "template rt prefix v = (case ToString rt v of
       Inl err \<Rightarrow> Inl err
     | Inr t \<Rightarrow> Inr (prefix @ t))"

definition startsWith :: "string \<Rightarrow> string \<Rightarrow> bool" where
  "startsWith s p = (take (length p) s = p)"

definition endsWith :: "string \<Rightarrow> string \<Rightarrow> bool" where
  "endsWith s p = (length p \<le> length s \<and> drop (length s - length p) s = p)"

text \<open>
  The white space and line terminators that \<open>String.prototype.trim\<close> strips, each as its
  UTF-8 bytes: U+0009 to U+000D, U+0020, U+00A0, U+1680, U+2000 to U+200A, U+2028, U+2029,
  U+202F, U+205F, U+3000 and U+FEFF.
\<close>

definition whiteSpaces :: "string list" where
  "whiteSpaces =
     [[CHR 0x09], [CHR 0x0A], [CHR 0x0B], [CHR 0x0C], [CHR 0x0D], [CHR 0x20],
      [CHR 0xC2, CHR 0xA0], [CHR 0xE1, CHR 0x9A, CHR 0x80],
      [CHR 0xE2, CHR 0x80, CHR 0x80], [CHR 0xE2, CHR 0x80, CHR 0x81],
      [CHR 0xE2, CHR 0x80, CHR 0x82], [CHR 0xE2, CHR 0x80, CHR 0x83],
      [CHR 0xE2, CHR 0x80, CHR 0x84], [CHR 0xE2, CHR 0x80, CHR 0x85],
      [CHR 0xE2, CHR 0x80, CHR 0x86], [CHR 0xE2, CHR 0x80, CHR 0x87],
      [CHR 0xE2, CHR 0x80, CHR 0x88], [CHR 0xE2, CHR 0x80, CHR 0x89],
      [CHR 0xE2, CHR 0x80, CHR 0x8A], [CHR 0xE2, CHR 0x80, CHR 0xA8],
      [CHR 0xE2, CHR 0x80, CHR 0xA9], [CHR 0xE2, CHR 0x80, CHR 0xAF],
      [CHR 0xE2, CHR 0x81, CHR 0x9F], [CHR 0xE3, CHR 0x80, CHR 0x80],
      [CHR 0xEF, CHR 0xBB, CHR 0xBF]]"

text \<open>
  The white space a string starts with and the white space it ends with, or \<open>None\<close>.
\<close>

definition leadingWhiteSpace :: "string \<Rightarrow> string option" where
  "leadingWhiteSpace s = find (\<lambda>ws. ws \<noteq> [] \<and> startsWith s ws) whiteSpaces"

definition trailingWhiteSpace :: "string \<Rightarrow> string option" where
  "trailingWhiteSpace s = find (\<lambda>ws. ws \<noteq> [] \<and> endsWith s ws) whiteSpaces"

function trimStart :: "string \<Rightarrow> string" where
  "trimStart s = (case leadingWhiteSpace s of
       None \<Rightarrow> s
     | Some ws \<Rightarrow> trimStart (drop (length ws) s))"
  by pat_completeness auto
termination
proof (relation "measure length")
  show "wf (measure length)" by simp
next
  fix s ws :: string
  assume "leadingWhiteSpace s = Some ws"
  then have "ws \<noteq> []" and "startsWith s ws"
    by (auto simp: leadingWhiteSpace_def find_Some_iff)
  then have "s \<noteq> []" by (auto simp: startsWith_def)
  with \<open>ws \<noteq> []\<close> show "(drop (length ws) s, s) \<in> measure length" by simp
qed

function trimEnd :: "string \<Rightarrow> string" where
  "trimEnd s = (case trailingWhiteSpace s of
       None \<Rightarrow> s
     | Some ws \<Rightarrow> trimEnd (take (length s - length ws) s))"
  by pat_completeness auto
termination
proof (relation "measure length")
  show "wf (measure length)" by simp
next
  fix s ws :: string
  assume "trailingWhiteSpace s = Some ws"
  then have "ws \<noteq> []" and "endsWith s ws"
    by (auto simp: trailingWhiteSpace_def find_Some_iff)
  then have "s \<noteq> []" by (auto simp: endsWith_def)
  with \<open>ws \<noteq> []\<close> show "(take (length s - length ws) s, s) \<in> measure length" by simp
qed

declare trimStart.simps [simp del]
declare trimEnd.simps [simp del]

definition trim :: "string \<Rightarrow> string" where
  "trim s = trimEnd (trimStart s)"

fun includes_str :: "string \<Rightarrow> string \<Rightarrow> bool" where
  "includes_str [] sub = (sub = [])"
| "includes_str (c # cs) sub = (startsWith (c # cs) sub \<or> includes_str cs sub)"

definition toLowerCase :: "string \<Rightarrow> string" where
  "toLowerCase s = map (\<lambda>c. if (65::nat) \<le> of_char c \<and> of_char c \<le> (90::nat)
                              then char_of (of_char c + (32::nat)) else c) s"

text \<open>
  \<open>v?.slice(0, 500)\<close>: \<open>undefined\<close> for \<open>undefined\<close> and \<open>null\<close>, the first 500 characters of a
  string, the first 500 elements of an array, and a TypeError for every other value, which
  has no method \<open>slice\<close>.
\<close>

definition optSlice500 :: "json option \<Rightarrow> error + json option" where
  "optSlice500 v = (case v of
       None \<Rightarrow> Inr None
     | Some JNull \<Rightarrow> Inr None
     | Some (JString s) \<Rightarrow> Inr (Some (JString (take 500 s)))
     | Some (JArray xs) \<Rightarrow> Inr (Some (JArray (take 500 xs)))
     | Some (JBool b) \<Rightarrow> Inl TypeError
     | Some (JNumber n) \<Rightarrow> Inl TypeError
     | Some (JObject kvs) \<Rightarrow> Inl TypeError)"

section \<open>Parsers (parsers/index.ts, cache-trace.ts, system-log.ts, session.ts)\<close>

datatype SourceType = SystemLog | CacheTrace | Session

text \<open>
  A field that the source copies from the parsed JSON holds whatever value was there, so
  it is a \<open>json option\<close>; \<open>None\<close> is an absent field.
\<close>

record ParsedEvent =
  ts :: "json option"
  sourceType :: SourceType
  sourceFile :: string
  eventType :: string
  level :: "string option"
  sessionId :: "json option"
  agentId :: "string option"
  runId :: "json option"
  provider :: "json option"
  modelId :: "json option"
  role :: "json option"
  messagePreview :: "json option"
  rawJson :: string

subsection \<open>Cache trace\<close>

definition isCacheTraceEvent :: "json option \<Rightarrow> bool" where
  "isCacheTraceEvent v =
     (if \<not> (truthy v \<and> isObjectType v) then False
      else isString (getProp v ''ts'') \<and> isNumber (getProp v ''seq'') \<and> isString (getProp v ''stage''))"

text \<open>The message preview that \<open>parseCacheTraceLine\<close> builds, before it is cut.\<close>

definition cacheTracePreview :: "js_runtime \<Rightarrow> json option \<Rightarrow> error + json option" where
  "cacheTracePreview rt entry =
     (if truthy (getProp entry ''note'') then Inr (getProp entry ''note'')
      else if truthy (getProp entry ''error'')
        then map_sum id (\<lambda>t. Some (JString t)) (template rt ''error: '' (getProp entry ''error''))
      else if getProp entry ''messageCount'' \<noteq> None
        then map_sum id (\<lambda>t. Some (JString t))
               (template rt ''messages: '' (getProp entry ''messageCount''))
      else Inr None)"

definition parseCacheTraceLine :: "js_runtime \<Rightarrow> string \<Rightarrow> string \<Rightarrow> error + ParsedEvent option" where
  "parseCacheTraceLine rt line file =
     (let trimmed = trim line in
      if trimmed = [] \<or> \<not> startsWith trimmed ''{'' then Inr None
      else case JSON_parse rt trimmed of
        None \<Rightarrow> Inr None
      | Some parsed \<Rightarrow>
          (let entry = Some parsed in
           if \<not> isCacheTraceEvent entry then Inr None
           else
             (case cacheTracePreview rt entry of
                Inl err \<Rightarrow> Inl err
              | Inr preview \<Rightarrow>
                  (case template rt ''cache:'' (getProp entry ''stage'') of
                     Inl err \<Rightarrow> Inl err
                   | Inr evType \<Rightarrow>
                       (case optSlice500 preview of
                          Inl err \<Rightarrow> Inl err
                        | Inr sliced \<Rightarrow>
                            Inr (Some \<lparr>ts = getProp entry ''ts'', sourceType = CacheTrace,
                              sourceFile = file, eventType = evType,
                              level = None, sessionId = getProp entry ''sessionId'', agentId = None,
                              runId = getProp entry ''runId'', provider = getProp entry ''provider'',
                              modelId = getProp entry ''modelId'', role = None,
                              messagePreview = sliced, rawJson = trimmed\<rparr>))))))"

subsection \<open>System log\<close>

definition LOG_LEVEL_MAP :: "int \<Rightarrow> string option" where
  "LOG_LEVEL_MAP n =
     (if n = 0 then Some ''silly'' else if n = 1 then Some ''trace''
      else if n = 2 then Some ''debug'' else if n = 3 then Some ''info''
      else if n = 4 then Some ''warn'' else if n = 5 then Some ''error''
      else if n = 6 then Some ''fatal'' else None)"

text \<open>\<open>v.toLowerCase()\<close> on a truthy value: a TypeError unless the value is a string.\<close>

definition call_toLowerCase :: "json option \<Rightarrow> error + string option" where
  "call_toLowerCase v = (case v of Some (JString s) \<Rightarrow> Inr (Some (toLowerCase s)) | _ \<Rightarrow> Inl TypeError)"

definition extractLogLevel :: "json option \<Rightarrow> error + string option" where
  "extractLogLevel entry =
     (if truthy (getProp (getProp entry ''_meta'') ''logLevelName'')
        then call_toLowerCase (getProp (getProp entry ''_meta'') ''logLevelName'')
      else if truthy (getProp entry ''logLevelName'')
        then call_toLowerCase (getProp entry ''logLevelName'')
      else
        (let levelId = (case getProp (getProp entry ''_meta'') ''logLevelId'' of
                          None \<Rightarrow> getProp entry ''logLevel''
                        | Some JNull \<Rightarrow> getProp entry ''logLevel''
                        | Some v \<Rightarrow> Some v)
         in case levelId of
              Some (JNumber n) \<Rightarrow> Inr (LOG_LEVEL_MAP n)
            | _ \<Rightarrow> Inr None))"

definition extractTimestamp :: "js_runtime \<Rightarrow> json option \<Rightarrow> json option" where
  "extractTimestamp rt entry =
     (if truthy (getProp (getProp entry ''_meta'') ''date'') then getProp (getProp entry ''_meta'') ''date''
      else if truthy (getProp entry ''date'') \<and> isString (getProp entry ''date'') then getProp entry ''date''
      else Some (JString (now_ISO rt)))"

definition extractMessage :: "json option \<Rightarrow> json option" where
  "extractMessage entry =
     (if truthy (getProp entry ''message'') \<and> isString (getProp entry ''message'') then getProp entry ''message''
      else if truthy (getProp entry ''msg'') \<and> isString (getProp entry ''msg'') then getProp entry ''msg''
      else
        (let firstArg = getProp entry ''0'' in
         if isString firstArg then firstArg
         else if truthy firstArg \<and> isObjectType firstArg \<and> isString (getProp firstArg ''message'')
           then getProp firstArg ''message''
         else None))"

definition extractSubsystem :: "json option \<Rightarrow> json option" where
  "extractSubsystem entry =
     (if truthy (getProp (getProp entry ''_meta'') ''name'') then getProp (getProp entry ''_meta'') ''name''
      else if truthy (getProp entry ''subsystem'') \<and> isString (getProp entry ''subsystem'')
        then getProp entry ''subsystem''
      else None)"

text \<open>The event type of a system-log line with the given subsystem.\<close>

definition systemLogEventType :: "js_runtime \<Rightarrow> json option \<Rightarrow> error + string" where
  "systemLogEventType rt subsystem =
     (if truthy subsystem then template rt ''log:'' subsystem else Inr ''log'')"

definition parseSystemLogLine :: "js_runtime \<Rightarrow> string \<Rightarrow> string \<Rightarrow> error + ParsedEvent option" where
  "parseSystemLogLine rt line file =
     (let trimmed = trim line in
      if trimmed = [] \<or> \<not> startsWith trimmed ''{'' then Inr None
      else case JSON_parse rt trimmed of
        None \<Rightarrow> Inr None
      | Some parsed \<Rightarrow>
          (let entry = Some parsed in
           if \<not> (truthy entry \<and> isObjectType entry) then Inr None
           else case extractLogLevel entry of
               Inl err \<Rightarrow> Inl err
             | Inr lvl \<Rightarrow>
                 (case systemLogEventType rt (extractSubsystem entry) of
                    Inl err \<Rightarrow> Inl err
                  | Inr evType \<Rightarrow>
                      (case optSlice500 (extractMessage entry) of
                         Inl err \<Rightarrow> Inl err
                       | Inr sliced \<Rightarrow>
                           Inr (Some \<lparr>ts = extractTimestamp rt entry, sourceType = SystemLog,
                             sourceFile = file, eventType = evType,
                             level = lvl, sessionId = None, agentId = None, runId = None,
                             provider = None, modelId = None, role = None,
                             messagePreview = sliced, rawJson = trimmed\<rparr>)))))"

subsection \<open>Session\<close>

definition isSessionHeader :: "json option \<Rightarrow> bool" where
  "isSessionHeader v =
     (if \<not> (truthy v \<and> isObjectType v) then False
      else getProp v ''type'' = Some (JString ''session'') \<and> isNumber (getProp v ''version'')
           \<and> isString (getProp v ''id''))"

definition isSessionMessage :: "json option \<Rightarrow> bool" where
  "isSessionMessage v =
     (if \<not> (truthy v \<and> isObjectType v) then False
      else getProp v ''type'' = Some (JString ''message'') \<and> getProp v ''message'' \<noteq> Some JNull
           \<and> isObjectType (getProp v ''message''))"

fun firstTextBlock :: "json list \<Rightarrow> json option" where
  "firstTextBlock [] = None"
| "firstTextBlock (block # blocks) =
     (if \<not> (truthy (Some block) \<and> isObjectType (Some block)) then firstTextBlock blocks
      else if getProp (Some block) ''type'' = Some (JString ''text'') \<and> isString (getProp (Some block) ''text'')
        then (case getProp (Some block) ''text'' of
                Some (JString t) \<Rightarrow> Some (JString (take 500 t))
              | _ \<Rightarrow> None)
      else firstTextBlock blocks)"

definition extractTextPreview :: "json option \<Rightarrow> json option" where
  "extractTextPreview content = (case content of
       Some (JString s) \<Rightarrow> Some (JString (take 500 s))
     | Some (JArray blocks) \<Rightarrow> firstTextBlock blocks
     | _ \<Rightarrow> None)"

text \<open>
  \<open>sourceFile.match(/agents\/([^/]+)\/sessions\//)\<close>: at the leftmost position where
  \<open>agents/\<close> is followed by a non-empty run without a slash and then by \<open>/sessions/\<close>, that
  run. The run must end at a slash, so at each position it is the longest one.
\<close>

definition agentIdAt :: "string \<Rightarrow> string option" where
  "agentIdAt s =
     (if startsWith s ''agents/'' then
        (let rest = drop 7 s; run = takeWhile (\<lambda>c. c \<noteq> CHR ''/'') rest
         in if run \<noteq> [] \<and> startsWith (drop (length run) rest) ''/sessions/'' then Some run else None)
      else None)"

fun extractAgentIdFromPath :: "string \<Rightarrow> string option" where
  "extractAgentIdFromPath [] = None"
| "extractAgentIdFromPath (c # cs) =
     (case agentIdAt (c # cs) of Some a \<Rightarrow> Some a | None \<Rightarrow> extractAgentIdFromPath cs)"

text \<open>
  The timestamp of a session message: \<open>msg.timestamp\<close> as an ISO date when it is truthy,
  the current time otherwise.
\<close>

definition sessionMessageTimestamp :: "js_runtime \<Rightarrow> json option \<Rightarrow> error + string" where
  "sessionMessageTimestamp rt msg = (case getProp msg ''timestamp'' of
       None \<Rightarrow> Inr (now_ISO rt)
     | Some t \<Rightarrow> if truthy (Some t) then Date_toISOString rt t else Inr (now_ISO rt))"

definition parseSessionLine :: "js_runtime \<Rightarrow> string \<Rightarrow> string \<Rightarrow> error + ParsedEvent option" where
  "parseSessionLine rt line file =
     (let trimmed = trim line in
      if trimmed = [] \<or> \<not> startsWith trimmed ''{'' then Inr None
      else case JSON_parse rt trimmed of
        None \<Rightarrow> Inr None
      | Some parsed \<Rightarrow>
          (let entry = Some parsed in
           if \<not> (truthy entry \<and> isObjectType entry \<and> truthy (getProp entry ''type'')) then Inr None
           else
             (let agent = extractAgentIdFromPath file in
              if isSessionHeader entry then
                Inr (Some \<lparr>ts = getProp entry ''timestamp'', sourceType = Session, sourceFile = file,
                  eventType = ''session:start'', level = None, sessionId = getProp entry ''id'',
                  agentId = agent, runId = None, provider = None, modelId = None, role = None,
                  messagePreview = None, rawJson = trimmed\<rparr>)
              else if isSessionMessage entry then
                (let msg = getProp entry ''message'' in
                 case sessionMessageTimestamp rt msg of
                   Inl err \<Rightarrow> Inl err
                 | Inr isoText \<Rightarrow>
                     (case template rt ''session:message:'' (getProp msg ''role'') of
                        Inl err \<Rightarrow> Inl err
                      | Inr evType \<Rightarrow>
                          Inr (Some \<lparr>ts = Some (JString isoText), sourceType = Session,
                            sourceFile = file, eventType = evType,
                            level = None, sessionId = None, agentId = agent, runId = None,
                            provider = getProp msg ''provider'', modelId = getProp msg ''model'',
                            role = getProp msg ''role'',
                            messagePreview = extractTextPreview (getProp msg ''content''),
                            rawJson = trimmed\<rparr>)))
              else
                (case template rt ''session:'' (getProp entry ''type'') of
                   Inl err \<Rightarrow> Inl err
                 | Inr evType \<Rightarrow>
                     Inr (Some \<lparr>ts = Some (JString (now_ISO rt)), sourceType = Session,
                       sourceFile = file, eventType = evType,
                       level = None, sessionId = None, agentId = agent, runId = None,
                       provider = None, modelId = None, role = None,
                       messagePreview = None, rawJson = trimmed\<rparr>)))))"

subsection \<open>Registry and batch parsing\<close>

definition getParser :: "SourceType \<Rightarrow> js_runtime \<Rightarrow> string \<Rightarrow> string \<Rightarrow> error + ParsedEvent option" where
  "getParser st = (case st of
       SystemLog \<Rightarrow> parseSystemLogLine
     | CacheTrace \<Rightarrow> parseCacheTraceLine
     | Session \<Rightarrow> parseSessionLine)"

text \<open>
  \<open>parseLines\<close>: the events of the lines, in order, a line that parses to \<open>null\<close> giving
  none; an exception thrown by the parser on a line leaves the loop.
\<close>

fun parseLines :: "(string \<Rightarrow> string \<Rightarrow> error + ParsedEvent option) \<Rightarrow> string list \<Rightarrow> string
    \<Rightarrow> error + ParsedEvent list" where
  "parseLines parseLine [] file = Inr []"
| "parseLines parseLine (l # ls) file =
     (case parseLine l file of
        Inl err \<Rightarrow> Inl err
      | Inr None \<Rightarrow> parseLines parseLine ls file
      | Inr (Some e) \<Rightarrow>
          (case parseLines parseLine ls file of
             Inl err \<Rightarrow> Inl err
           | Inr evs \<Rightarrow> Inr (e # evs)))"

section \<open>Event store (schema.ts)\<close>

record tracked_file_row =
  source_type :: SourceType
  byte_offset :: int
  last_seen_at :: int
  file_size :: int

record event_row =
  ev :: ParsedEvent
  ingested_at :: int

text \<open>
  The two tables. \<open>tracked_files\<close> has the path as its primary key: a list of rows with
  distinct paths. While a transaction is open, \<open>transaction\<close> holds the events table as
  it was at \<open>BEGIN\<close>.
\<close>

record database =
  tracked_files :: "(path \<times> tracked_file_row) list"
  events :: "event_row list"
  transaction :: "event_row list option"

text \<open>
  \<open>INSERT ... ON CONFLICT(path) DO UPDATE\<close>: a new row for a new path; for a known path
  the offset, the time and the size are overwritten and the source type is kept.
\<close>

fun upsert_tracked :: "path \<Rightarrow> tracked_file_row \<Rightarrow> (path \<times> tracked_file_row) list
    \<Rightarrow> (path \<times> tracked_file_row) list" where
  "upsert_tracked p new [] = [(p, new)]"
| "upsert_tracked p new ((q, old) # rest) =
     (if q = p
      then (q, old\<lparr>byte_offset := byte_offset new, last_seen_at := last_seen_at new,
                    file_size := file_size new\<rparr>) # rest
      else (q, old) # upsert_tracked p new rest)"

definition updateTrackedFile :: "int \<Rightarrow> database \<Rightarrow> path \<Rightarrow> SourceType \<Rightarrow> int \<Rightarrow> int \<Rightarrow> database" where
  "updateTrackedFile now d p st byteOffset fileSize =
     d\<lparr>tracked_files :=
         upsert_tracked p \<lparr>source_type = st, byte_offset = byteOffset, last_seen_at = now,
                           file_size = fileSize\<rparr> (tracked_files d)\<rparr>"

text \<open>\<open>getTrackedFile\<close> returns \<open>(byteOffset, fileSize)\<close>, or \<open>None\<close> for \<open>null\<close>.\<close>

definition getTrackedFile :: "database \<Rightarrow> path \<Rightarrow> (int \<times> int) option" where
  "getTrackedFile d p = (case map_of (tracked_files d) p of
       None \<Rightarrow> None
     | Some row \<Rightarrow> Some (byte_offset row, file_size row))"

definition exec_BEGIN :: "database \<Rightarrow> database" where
  "exec_BEGIN d = d\<lparr>transaction := Some (events d)\<rparr>"

definition exec_COMMIT :: "database \<Rightarrow> database" where
  "exec_COMMIT d = d\<lparr>transaction := None\<rparr>"

definition exec_ROLLBACK :: "database \<Rightarrow> database" where
  "exec_ROLLBACK d = (case transaction d of
       None \<Rightarrow> d
     | Some saved \<Rightarrow> d\<lparr>events := saved, transaction := None\<rparr>)"

text \<open>
  The loop of \<open>stmt.run\<close> calls inside the transaction. Which rows the engine refuses is a
  parameter, \<open>rowFails\<close>; the first refused row throws, and the rows run before it are in
  the table at that moment.
\<close>

fun stmt_run_all :: "(ParsedEvent \<Rightarrow> bool) \<Rightarrow> int \<Rightarrow> database \<Rightarrow> ParsedEvent list
    \<Rightarrow> database \<times> error option" where
  "stmt_run_all rowFails now d [] = (d, None)"
| "stmt_run_all rowFails now d (e # es) =
     (if rowFails e then (d, Some StoreError)
      else stmt_run_all rowFails now (d\<lparr>events := events d @ [\<lparr>ev = e, ingested_at = now\<rparr>]\<rparr>) es)"

text \<open>\<open>insertEventsBatch\<close> returns the database and the error it throws, if any.\<close>

definition insertEventsBatch :: "(ParsedEvent \<Rightarrow> bool) \<Rightarrow> int \<Rightarrow> database \<Rightarrow> ParsedEvent list
    \<Rightarrow> database \<times> error option" where
  "insertEventsBatch rowFails now d batch =
     (if batch = [] then (d, None)
      else case stmt_run_all rowFails now (exec_BEGIN d) batch of
             (d', None) \<Rightarrow> (exec_COMMIT d', None)
           | (d', Some err) \<Rightarrow> (exec_ROLLBACK d', Some err))"

section \<open>Path patterns (watcher.ts)\<close>

type_synonym WatchedPath = "string \<times> SourceType"

datatype change_kind = Add | Change | Unlink

datatype FileChangeEvent = FileChangeEvent (change_path: path) (change_sourceType: SourceType)
  (change_eventType: change_kind)

definition path_sep :: string where
  "path_sep = ''/''"

text \<open>\<open>pattern.split("**")\<close>.\<close>

fun split_stars :: "string \<Rightarrow> string \<Rightarrow> string list" where
  "split_stars acc [] = [rev acc]"
| "split_stars acc [c] = [rev (c # acc)]"
| "split_stars acc (c # d # cs) =
     (if c = CHR ''*'' \<and> d = CHR ''*'' then rev acc # split_stars [] cs
      else split_stars (c # acc) (d # cs))"

text \<open>\<open>replace(/\/$/, "")\<close> and \<open>replace(/^\//, "")\<close>.\<close>

definition stripTrailingSlash :: "string \<Rightarrow> string" where
  "stripTrailingSlash s = (if s \<noteq> [] \<and> last s = CHR ''/'' then butlast s else s)"

definition stripLeadingSlash :: "string \<Rightarrow> string" where
  "stripLeadingSlash s = (case s of [] \<Rightarrow> [] | c # cs \<Rightarrow> if c = CHR ''/'' then cs else s)"

text \<open>
  The regular expression of the single-star branch. The first \<open>replace\<close> escapes every
  syntax character of a regular expression except \<open>*\<close> and \<open>?\<close>, and the second turns each
  \<open>*\<close> into \<open>[^/]*\<close>, so the source of the expression is a sequence of literal characters
  and \<open>[^/]*\<close>, with \<open>?\<close> left as a quantifier: after a literal it makes the character
  optional (\<open>??\<close> the same, lazily), after \<open>[^/]*\<close> it makes the star lazy, and anywhere
  else there is nothing to repeat and \<open>new RegExp\<close> throws a SyntaxError.
\<close>

datatype rx_atom = RxChar char | RxNonSlashes

fun compileGlob :: "string \<Rightarrow> (rx_atom \<times> bool) list option" where
  "compileGlob [] = Some []"
| "compileGlob (c # cs) =
     (if c = CHR ''?'' then None
      else if c = CHR ''*'' then
        (case cs of
           [] \<Rightarrow> Some [(RxNonSlashes, False)]
         | q # rest \<Rightarrow>
             map_option (\<lambda>items. (RxNonSlashes, False) # items)
               (if q = CHR ''?'' then compileGlob rest else compileGlob (q # rest)))
      else
        (case cs of
           [] \<Rightarrow> Some [(RxChar c, False)]
         | [q] \<Rightarrow> if q = CHR ''?'' then Some [(RxChar c, True)]
                  else map_option (\<lambda>items. (RxChar c, False) # items) (compileGlob [q])
         | q # r # rest \<Rightarrow>
             if q = CHR ''?'' \<and> r = CHR ''?''
               then map_option (\<lambda>items. (RxChar c, True) # items) (compileGlob rest)
             else if q = CHR ''?''
               then map_option (\<lambda>items. (RxChar c, True) # items) (compileGlob (r # rest))
             else map_option (\<lambda>items. (RxChar c, False) # items) (compileGlob (q # r # rest))))"

text \<open>\<open>regex.test(filePath)\<close> for the anchored expression \<open>^...$\<close>.\<close>

fun rxMatch :: "(rx_atom \<times> bool) list \<Rightarrow> string \<Rightarrow> bool" where
  "rxMatch [] s = (s = [])"
| "rxMatch ((RxChar c, optional) # items) s =
     ((case s of [] \<Rightarrow> False | x # xs \<Rightarrow> x = c \<and> rxMatch items xs)
      \<or> (optional \<and> rxMatch items s))"
| "rxMatch ((RxNonSlashes, optional) # items) s =
     (rxMatch items s
      \<or> (case s of [] \<Rightarrow> False
                   | x # xs \<Rightarrow> x \<noteq> CHR ''/'' \<and> rxMatch ((RxNonSlashes, optional) # items) xs))"

definition matchesPattern :: "string \<Rightarrow> string \<Rightarrow> error + bool" where
  "matchesPattern filePath pattern =
     (if \<not> includes_str pattern ''*''
        then Inr (filePath = pattern \<or> startsWith filePath (pattern @ path_sep))
      else if includes_str pattern ''**'' then
        (let parts = split_stars [] pattern;
             prefix = (case parts of [] \<Rightarrow> [] | p0 # ps \<Rightarrow> stripTrailingSlash p0);
             suffix = (case parts of p0 # p1 # ps \<Rightarrow> stripLeadingSlash p1 | _ \<Rightarrow> []);
             matchesPrefix = (prefix = [] \<or> startsWith filePath prefix);
             matchesSuffix = (suffix = [] \<or> endsWith filePath suffix)
         in Inr (matchesPrefix \<and> matchesSuffix))
      else (case compileGlob pattern of
              None \<Rightarrow> Inl SyntaxError
            | Some rx \<Rightarrow> Inr (rxMatch rx filePath)))"

text \<open>
  \<open>resolveSourceType\<close> of the watcher and \<open>getSourceTypeForFile\<close> of the ingestor are the
  same loop: the source type of the first descriptor whose pattern matches.
\<close>

fun getSourceTypeForFile :: "WatchedPath list \<Rightarrow> string \<Rightarrow> error + SourceType option" where
  "getSourceTypeForFile [] filePath = Inr None"
| "getSourceTypeForFile ((pattern, st) # wps) filePath =
     (case matchesPattern filePath pattern of
        Inl err \<Rightarrow> Inl err
      | Inr True \<Rightarrow> Inr (Some st)
      | Inr False \<Rightarrow> getSourceTypeForFile wps filePath)"

text \<open>
  \<open>emitEvent\<close> of the watcher: the event handed to the callback, or \<open>None\<close> when the file
  matches no descriptor and the change is ignored.
\<close>

definition emitEvent :: "WatchedPath list \<Rightarrow> change_kind \<Rightarrow> string \<Rightarrow> error + FileChangeEvent option" where
  "emitEvent wps kind filePath =
     (case getSourceTypeForFile wps filePath of
        Inl err \<Rightarrow> Inl err
      | Inr None \<Rightarrow> Inr None
      | Inr (Some st) \<Rightarrow> Inr (Some (FileChangeEvent filePath st kind)))"

text \<open>
  \<open>path.join\<close> on segments that are already normalised, and the default descriptors for
  a state directory.
\<close>

fun path_join :: "string list \<Rightarrow> string" where
  "path_join [] = ''.''"
| "path_join [x] = x"
| "path_join (x # y # ys) = x @ path_sep @ path_join (y # ys)"

definition getDefaultWatchedPaths :: "string \<Rightarrow> WatchedPath list" where
  "getDefaultWatchedPaths resolvedStateDir =
     [(path_join [resolvedStateDir, ''agents'', ''**'', ''sessions'', ''*.jsonl''], Session),
      (path_join [resolvedStateDir, ''logs'', ''cache-trace.jsonl''], CacheTrace),
      (''/tmp/openclaw/openclaw-*.log'', SystemLog)]"

section \<open>Ingestor (ingestor.ts)\<close>

text \<open>
  What one operation takes from outside: the JavaScript runtime, the rows the store engine
  refuses, the file system, the clock (\<open>Date.now()\<close>, which stands still during one
  operation), and the files \<open>resolveWatchedFiles\<close> finds by walking the directories.
\<close>

record environment =
  runtime :: js_runtime
  rowFails :: "ParsedEvent \<Rightarrow> bool"
  files :: filesystem
  clock :: int
  existing :: "(path \<times> SourceType) list"

text \<open>
  The fields of an \<open>ObservabilityIngestor\<close>. The watcher and the timer are present or
  \<open>null\<close>; \<open>pendingFiles\<close> is a \<open>Set\<close>, kept in insertion order without repetition; the
  batch size is a natural number.
\<close>

record ingestor =
  db :: database
  dbOpen :: bool
  dbPath :: path
  watchedPaths :: "WatchedPath list"
  batchSize :: nat
  watcher :: bool
  pendingFiles :: "path list"
  ingestTimer :: bool
  processing :: bool
  closed :: bool

definition DEFAULT_BATCH_SIZE :: nat where
  "DEFAULT_BATCH_SIZE = 100"

text \<open>
  The loop of \<open>insertEvents\<close>, \<open>for (let i = 0; i < dbEvents.length; i += this.batchSize)\<close>:
  each batch is \<open>dbEvents.slice(i, i + batchSize)\<close> and has a transaction of its own; the
  first batch that throws leaves the loop. With a batch size of 0 the index never advances
  and the loop does not return, which is the value \<open>None\<close>.
\<close>

partial_function (option) insertEvents_loop :: "(ParsedEvent \<Rightarrow> bool) \<Rightarrow> int \<Rightarrow> nat
    \<Rightarrow> ParsedEvent list \<Rightarrow> database \<Rightarrow> nat \<Rightarrow> (database \<times> error option) option" where
  "insertEvents_loop fails now bsize dbEvents d i =
     (if i < length dbEvents then
        (case insertEventsBatch fails now d (take bsize (drop i dbEvents)) of
           (d', Some err) \<Rightarrow> Some (d', Some err)
         | (d', None) \<Rightarrow> insertEvents_loop fails now bsize dbEvents d' (i + bsize))
      else Some (d, None))"

definition insertEvents :: "environment \<Rightarrow> ingestor \<Rightarrow> ParsedEvent list
    \<Rightarrow> (ingestor \<times> error option) option" where
  "insertEvents env s evs =
     (case insertEvents_loop (rowFails env) (clock env) (batchSize s) evs (db s) 0 of
        None \<Rightarrow> None
      | Some (d', err) \<Rightarrow> Some (s\<lparr>db := d'\<rparr>, err))"

text \<open>
  \<open>ingestFile\<close> returns the ingestor and either the number of events or the exception
  thrown; \<open>None\<close> when it does not return.
\<close>

definition ingestFile :: "environment \<Rightarrow> ingestor \<Rightarrow> path \<Rightarrow> SourceType
    \<Rightarrow> (ingestor \<times> (error + nat)) option" where
  "ingestFile env s filePath st =
     (if closed s then Some (s, Inr 0)
      else
        (let tracked = getTrackedFile (db s) filePath;
             cursorParam = (case tracked of None \<Rightarrow> 0 | Some (byteOffset, sz) \<Rightarrow> byteOffset)
         in case readNewLines (files env) filePath cursorParam None of
              (ls, newCursor, fileSize, rst) \<Rightarrow>
                if ls = [] then Some (s, Inr 0)
                else
                  (case parseLines (getParser st (runtime env)) ls filePath of
                     Inl err \<Rightarrow> Some (s, Inl err)
                   | Inr evs \<Rightarrow>
                       (case (if evs \<noteq> [] then insertEvents env s evs else Some (s, None)) of
                          None \<Rightarrow> None
                        | Some (s', Some err) \<Rightarrow> Some (s', Inl err)
                        | Some (s', None) \<Rightarrow>
                            Some (s'\<lparr>db := updateTrackedFile (clock env) (db s') filePath st
                                              newCursor fileSize\<rparr>,
                                  Inr (length evs))))))"

text \<open>
  The loop of \<open>ingestExisting\<close> over the files found: a failure of one file is caught and
  logged, and the loop goes on. It returns the ingestor and the total of events.
\<close>

fun ingestAll :: "environment \<Rightarrow> ingestor \<Rightarrow> (path \<times> SourceType) list \<Rightarrow> nat
    \<Rightarrow> (ingestor \<times> nat) option" where
  "ingestAll env s [] totalEvents = Some (s, totalEvents)"
| "ingestAll env s ((p, st) # rest) totalEvents =
     (case ingestFile env s p st of
        None \<Rightarrow> None
      | Some (s', Inl err) \<Rightarrow> ingestAll env s' rest totalEvents
      | Some (s', Inr n) \<Rightarrow> ingestAll env s' rest (totalEvents + n))"

text \<open>\<open>ingestExisting\<close> returns \<open>(files, events)\<close>.\<close>

definition ingestExisting :: "environment \<Rightarrow> ingestor \<Rightarrow> (ingestor \<times> (error + nat \<times> nat)) option" where
  "ingestExisting env s =
     (if closed s then Some (s, Inl IngestorClosed)
      else case ingestAll env s (existing env) 0 of
             None \<Rightarrow> None
           | Some (s', totalEvents) \<Rightarrow> Some (s', Inr (length (existing env), totalEvents)))"

definition startWatching :: "environment \<Rightarrow> ingestor \<Rightarrow> (ingestor \<times> (error + unit)) option" where
  "startWatching env s =
     (if closed s then Some (s, Inl IngestorClosed)
      else if watcher s then Some (s, Inr ())
      else case ingestExisting env s of
             None \<Rightarrow> None
           | Some (s', Inl err) \<Rightarrow> Some (s', Inl err)
           | Some (s', Inr counts) \<Rightarrow> Some (s'\<lparr>watcher := True\<rparr>, Inr ()))"

definition stopWatching :: "ingestor \<Rightarrow> ingestor" where
  "stopWatching s = s\<lparr>ingestTimer := False, watcher := False\<rparr>"

text \<open>
  \<open>status\<close> returns the database path, whether a watcher is attached, the number of
  tracked files, the number of events and the number of events of each source type.
\<close>

definition status :: "ingestor \<Rightarrow> error + path \<times> bool \<times> nat \<times> nat \<times> (SourceType \<Rightarrow> nat)" where
  "status s =
     (if closed s then Inl IngestorClosed
      else Inr (dbPath s, watcher s, length (tracked_files (db s)), length (events (db s)),
                \<lambda>st. length (filter (\<lambda>r. sourceType (ev r) = st) (events (db s)))))"

definition close :: "ingestor \<Rightarrow> ingestor" where
  "close s = (if closed s then s else (stopWatching (s\<lparr>closed := True\<rparr>))\<lparr>dbOpen := False\<rparr>)"

subsection \<open>Debounced processing\<close>

definition scheduleIngest :: "ingestor \<Rightarrow> ingestor" where
  "scheduleIngest s = (if ingestTimer s then s else s\<lparr>ingestTimer := True\<rparr>)"

definition onFileChange :: "ingestor \<Rightarrow> FileChangeEvent \<Rightarrow> ingestor" where
  "onFileChange s change =
     (if change_eventType change = Unlink then s
      else scheduleIngest
             (s\<lparr>pendingFiles :=
                  (if change_path change \<in> set (pendingFiles s) then pendingFiles s
                   else pendingFiles s @ [change_path change])\<rparr>))"

text \<open>
  \<open>processPendingFiles\<close> is an async function: it runs up to its first \<open>await\<close>, and each
  later piece runs when the awaited \<open>ingestFile\<close> has returned. Its synchronous start
  returns the ingestor and, when a pass begins, the files of the pass.
\<close>

definition processPendingFiles_start :: "ingestor \<Rightarrow> ingestor \<times> path list option" where
  "processPendingFiles_start s =
     (if closed s \<or> processing s then (s, None)
      else (s\<lparr>processing := True, pendingFiles := []\<rparr>, Some (pendingFiles s)))"

text \<open>The \<open>finally\<close> block.\<close>

definition processPendingFiles_finally :: "ingestor \<Rightarrow> ingestor" where
  "processPendingFiles_finally s =
     (let s1 = s\<lparr>processing := False\<rparr>
      in if pendingFiles s1 \<noteq> [] \<and> \<not> closed s1 then scheduleIngest s1 else s1)"

text \<open>
  One turn of the loop of a pass whose remaining files are \<open>remaining\<close>: the ingestor, the
  files still to do (\<open>None\<close> when the pass has ended, through the \<open>finally\<close> block), the file
  handed to \<open>ingestFile\<close> in this turn, if any, and the exception that leaves the function,
  if any. An exception of \<open>ingestFile\<close> is caught and logged; one of
  \<open>getSourceTypeForFile\<close> is not.
\<close>

definition processPendingFiles_turn :: "environment \<Rightarrow> ingestor \<Rightarrow> path list
    \<Rightarrow> (ingestor \<times> path list option \<times> path option \<times> error option) option" where
  "processPendingFiles_turn env s remaining =
     (case remaining of
        [] \<Rightarrow> Some (processPendingFiles_finally s, None, None, None)
      | filePath # rest \<Rightarrow>
          if closed s then Some (processPendingFiles_finally s, None, None, None)
          else
            (case getSourceTypeForFile (watchedPaths s) filePath of
               Inl err \<Rightarrow> Some (processPendingFiles_finally s, None, None, Some err)
             | Inr None \<Rightarrow> Some (s, Some rest, None, None)
             | Inr (Some st) \<Rightarrow>
                 (case ingestFile env s filePath st of
                    None \<Rightarrow> None
                  | Some (s', outcome) \<Rightarrow> Some (s', Some rest, Some filePath, None))))"

text \<open>
  The ingestor in its event loop: the ingestor itself, the passes of \<open>processPendingFiles\<close> that
  are suspended at an \<open>await\<close> (each with its remaining files), and the record of the files
  handed to \<open>ingestFile\<close> by the passes, latest last.
\<close>

record event_loop =
  ingestor_of :: ingestor
  passes :: "path list list"
  ingested :: "path list"

text \<open>
  What can happen next: the watcher calls back with a change, the debounce timer fires, or
  the suspended pass number \<open>i\<close> goes on with one turn in the environment of that moment.
\<close>

datatype happening = Notify FileChangeEvent | TimerFires | Resume nat environment

text \<open>\<open>None\<close>: the happening is not possible in this state, or the turn does not return.\<close>

definition step :: "event_loop \<Rightarrow> happening \<Rightarrow> event_loop option" where
  "step w h = (case h of
       Notify change \<Rightarrow> Some (w\<lparr>ingestor_of := onFileChange (ingestor_of w) change\<rparr>)
     | TimerFires \<Rightarrow>
         if ingestTimer (ingestor_of w) then
           (case processPendingFiles_start ((ingestor_of w)\<lparr>ingestTimer := False\<rparr>) of
              (s', None) \<Rightarrow> Some (w\<lparr>ingestor_of := s'\<rparr>)
            | (s', Some pass) \<Rightarrow> Some (w\<lparr>ingestor_of := s', passes := passes w @ [pass]\<rparr>))
         else None
     | Resume i env \<Rightarrow>
         if i < length (passes w) then
           (case processPendingFiles_turn env (ingestor_of w) (passes w ! i) of
              None \<Rightarrow> None
            | Some (s', remaining, handed, err) \<Rightarrow>
                Some \<lparr>ingestor_of = s',
                      passes = (case remaining of
                                  None \<Rightarrow> take i (passes w) @ drop (Suc i) (passes w)
                                | Some rest \<Rightarrow> (passes w)[i := rest]),
                      ingested = (case handed of
                                    None \<Rightarrow> ingested w
                                  | Some p \<Rightarrow> ingested w @ [p])\<rparr>)
         else None)"

fun run :: "event_loop \<Rightarrow> happening list \<Rightarrow> event_loop option" where
  "run w [] = Some w"
| "run w (h # hs) = (case step w h of None \<Rightarrow> None | Some w' \<Rightarrow> run w' hs)"

section \<open>Lines a parser skips\<close>

text \<open>
  The fields a parser requires of the parsed object: \<open>isCacheTraceEvent\<close> asks for
  \<open>ts\<close>, \<open>seq\<close> and \<open>stage\<close>, \<open>parseSessionLine\<close> for \<open>type\<close>, and
  \<open>parseSystemLogLine\<close> for none. A line is not valid JSON when \<open>JSON.parse\<close> throws on
  its trimmed text, and misses a required field when the parsed value has no such
  property.
\<close>

definition requiredFields :: "SourceType \<Rightarrow> string list" where
  "requiredFields st = (case st of
       SystemLog \<Rightarrow> []
     | CacheTrace \<Rightarrow> [''ts'', ''seq'', ''stage'']
     | Session \<Rightarrow> [''type''])"

definition notValidJSON :: "js_runtime \<Rightarrow> string \<Rightarrow> bool" where
  "notValidJSON rt line = (JSON_parse rt (trim line) = None)"

definition missingRequiredField :: "SourceType \<Rightarrow> js_runtime \<Rightarrow> string \<Rightarrow> bool" where
  "missingRequiredField st rt line = (case JSON_parse rt (trim line) of
       None \<Rightarrow> False
     | Some parsed \<Rightarrow> list_ex (\<lambda>k. getProp (Some parsed) k = None) (requiredFields st))"

section \<open>What the loop of insertEvents leaves\<close>

text \<open>
  The state of the store when the loop that started at index \<open>i\<close> has returned \<open>y\<close>: the
  tracked files are untouched, no transaction is open, and the rows of \<open>k\<close> whole batches
  were appended, none of which the engine refuses; either these are all the events from
  \<open>i\<close> on, or the loop threw and batch number \<open>k\<close> holds a row the engine refuses.
\<close>

definition loop_post :: "(ParsedEvent \<Rightarrow> bool) \<Rightarrow> int \<Rightarrow> nat \<Rightarrow> ParsedEvent list \<Rightarrow> database \<Rightarrow> nat
   \<Rightarrow> database \<times> error option \<Rightarrow> bool" where
  "loop_post fails now bs evs d i y =
     (tracked_files (fst y) = tracked_files d \<and> transaction (fst y) = None
      \<and> (\<exists>k. events (fst y) = events d @ map (\<lambda>e. \<lparr>ev = e, ingested_at = now\<rparr>) (take (k * bs) (drop i evs))
            \<and> \<not> list_ex fails (take (k * bs) (drop i evs))
            \<and> (case snd y of
                  None \<Rightarrow> length evs \<le> i + k * bs
                | Some err \<Rightarrow> err = StoreError \<and> i + k * bs < length evs
                     \<and> list_ex fails (take bs (drop (i + k * bs) evs)))))"

section \<open>Example inputs\<close>

text \<open>
  A runtime for the examples, which agrees with JavaScript on what they use: \<open>JSON.parse\<close>
  of the texts \<open>{}\<close> and \<open>{ }\<close> is the empty object, and every other text of the examples
  is not JSON. The lines of the examples hold no number and no timestamp, so the other two
  functions are never called.
\<close>

definition example_runtime :: js_runtime where
  "example_runtime =
     \<lparr>JSON_parse = (\<lambda>t. if t = ''{}'' \<or> t = ''{ }'' then Some (JObject []) else None),
      Number_toString = (\<lambda>n. if n = 0 then ''0'' else ''1''),
      Date_toISOString = (\<lambda>v. if v = JNumber 0 then Inr ''1970-01-01T00:00:00.000Z''
                                else Inl RangeError),
      now_ISO = ''2024-01-01T12:00:00.000Z''\<rparr>"

definition example_log :: path where
  "example_log = ''/tmp/openclaw/openclaw-1.log''"

text \<open>An open ingestor with an empty store, the default descriptors and batches of one event.\<close>

definition example_ingestor :: ingestor where
  "example_ingestor =
     \<lparr>db = \<lparr>tracked_files = [], events = [], transaction = None\<rparr>, dbOpen = True,
      dbPath = ''/s/observability.db'', watchedPaths = getDefaultWatchedPaths ''/s'',
      batchSize = 1, watcher = False, pendingFiles = [], ingestTimer = False,
      processing = False, closed = False\<rparr>"

text \<open>The same ingestor with the given tables.\<close>

definition example_store :: "(path \<times> tracked_file_row) list \<Rightarrow> event_row list \<Rightarrow> ingestor" where
  "example_store tracked rows =
     example_ingestor\<lparr>db := \<lparr>tracked_files = tracked, events = rows, transaction = None\<rparr>\<rparr>"

definition example_tracked :: "int \<Rightarrow> int \<Rightarrow> (path \<times> tracked_file_row) list" where
  "example_tracked offset seen =
     [(example_log, \<lparr>source_type = SystemLog, byte_offset = offset, last_seen_at = seen,
                      file_size = offset\<rparr>)]"

text \<open>
  An environment in which the example log has the given bytes, the engine refuses the
  given rows and the clock shows 1000.
\<close>

definition example_env :: "string \<Rightarrow> (ParsedEvent \<Rightarrow> bool) \<Rightarrow> environment" where
  "example_env content fails =
     \<lparr>runtime = example_runtime, rowFails = fails,
      files = (\<lambda>p. if p = example_log then Some content else None),
      clock = 1000, existing = []\<rparr>"

text \<open>The event of a line of the example log whose trimmed text is \<open>raw\<close>, and its row.\<close>

definition example_event :: "string \<Rightarrow> ParsedEvent" where
  "example_event raw =
     \<lparr>ts = Some (JString ''2024-01-01T12:00:00.000Z''), sourceType = SystemLog,
      sourceFile = example_log, eventType = ''log'', level = None, sessionId = None,
      agentId = None, runId = None, provider = None, modelId = None, role = None,
      messagePreview = None, rawJson = raw\<rparr>"

definition example_row :: "string \<Rightarrow> event_row" where
  "example_row raw = \<lparr>ev = example_event raw, ingested_at = 1000\<rparr>"



text \<open>
  Two records of a cache trace, the second with a number as its \<open>note\<close>, the runtime
  that parses them as JavaScript does, the event of the first, and an environment in which
  the cache trace of the state directory \<open>/s\<close> holds the two.
\<close>

definition example_trace_file :: path where
  "example_trace_file = ''/s/logs/cache-trace.jsonl''"

definition example_trace_line :: string where
  \<open>example_trace_line = ''{"ts":"t","seq":1,"stage":"s"}''\<close>

definition example_bad_trace_line :: string where
  \<open>example_bad_trace_line = ''{"ts":"t","seq":2,"stage":"s","note":5}''\<close>

definition example_trace_runtime :: js_runtime where
  "example_trace_runtime =
     \<lparr>JSON_parse = (\<lambda>t.
         if t = example_trace_line
           then Some (JObject [(''ts'', JString ''t''), (''seq'', JNumber 1),
                               (''stage'', JString ''s'')])
         else if t = example_bad_trace_line
           then Some (JObject [(''ts'', JString ''t''), (''seq'', JNumber 2),
                               (''stage'', JString ''s''), (''note'', JNumber 5)])
         else None),
      Number_toString = (\<lambda>n. if n = 5 then ''5'' else ''0''),
      Date_toISOString = (\<lambda>v. Inl RangeError),
      now_ISO = ''2024-01-01T12:00:00.000Z''\<rparr>"

definition example_trace_event :: ParsedEvent where
  "example_trace_event =
     \<lparr>ts = Some (JString ''t''), sourceType = CacheTrace, sourceFile = example_trace_file,
      eventType = ''cache:s'', level = None, sessionId = None, agentId = None, runId = None,
      provider = None, modelId = None, role = None, messagePreview = None,
      rawJson = example_trace_line\<rparr>"

definition example_trace_env :: environment where
  "example_trace_env =
     \<lparr>runtime = example_trace_runtime, rowFails = (\<lambda>e. False),
      files = (\<lambda>p. if p = example_trace_file
                     then Some (example_trace_line @ ''\<newline>'' @ example_bad_trace_line @ ''\<newline>'')
                     else None),
      clock = 1000, existing = []\<rparr>"


section \<open>States of the event loop\<close>







section \<open>Properties of the tail reader\<close>

text \<open>
  C1. The tail reader should return only lines terminated by a line break. On the file
  \<open>{a}\<newline>{incomplete\<close> read from byte 0 it returns the unterminated fragment
  \<open>{incomplete\<close> as a line and the cursor 15; once the record is completed on disk to
  \<open>{a}\<newline>{incomplete}\<newline>\<close>, the read from cursor 15 starts inside that line, discards
  its rest and returns nothing, so the completed line is never returned.
\<close>

theorem C1_partial_line_emitted:
  "lines (readLogSlice (\<lambda>p. if p = ''f.jsonl'' then Some ''{a}\<newline>{incomplete'' else None)
            ''f.jsonl'' (Some 0) None) = [''{a}'', ''{incomplete'']
   \<and> cursor (readLogSlice (\<lambda>p. if p = ''f.jsonl'' then Some ''{a}\<newline>{incomplete'' else None)
            ''f.jsonl'' (Some 0) None) = 15
   \<and> lines (readLogSlice (\<lambda>p. if p = ''f.jsonl'' then Some ''{a}\<newline>{incomplete}\<newline>'' else None)
            ''f.jsonl'' (Some 15) None) = []"
  by (simp add: readLogSlice_def readLogSlice_start_def DEFAULT_MAX_BYTES_def
      dropTrailingEmpty_def Let_def)

text \<open>
  C8. For an existing file and a supplied cursor strictly greater than the file's size, the
  read starts at byte 0 and the reset flag is true: the returned lines are the lines of the
  whole content.
\<close>

theorem C8_rotation_resets:
  assumes "fs file = Some content" and "int (length content) < c"
  shows "readLogSlice_start (Some c) (int (length content)) maxBytes = (0, True, False)
       \<and> reset (readLogSlice fs file (Some c) maxBytesParam) = True
       \<and> lines (readLogSlice fs file (Some c) maxBytesParam) = dropTrailingEmpty (split_nl content)"
proof -
  have c0: "max 0 c > int (length content)" using assms(2) by simp
  have st: "readLogSlice_start (Some c) (int (length content)) m = (0, True, False)" for m
    using c0 by (simp add: readLogSlice_start_def Let_def)
  have empty: "content = [] \<Longrightarrow> dropTrailingEmpty (split_nl content) = []"
    by (simp add: dropTrailingEmpty_def)
  show ?thesis
    using assms(1) st empty
    by (cases "content = []") (simp_all add: readLogSlice_def Let_def)
qed

theorem C8_rotation_resets_witness:
  "reset (readLogSlice (\<lambda>p. if p = ''a.log'' then Some ''x\<newline>y\<newline>'' else None)
            ''a.log'' (Some 100) None) = True
   \<and> lines (readLogSlice (\<lambda>p. if p = ''a.log'' then Some ''x\<newline>y\<newline>'' else None)
            ''a.log'' (Some 100) None) = [''x'', ''y'']"
  using C8_rotation_resets [of "\<lambda>p. if p = ''a.log'' then Some ''x\<newline>y\<newline>'' else None"
      "''a.log''" "''x\<newline>y\<newline>''" 100 DEFAULT_MAX_BYTES None]
  by (simp add: dropTrailingEmpty_def)

section \<open>Properties of the pattern matcher\<close>

text \<open>
  C4. A descriptor whose pattern has \<open>**\<close> followed by \<open>*\<close>, such as the default session
  pattern, should match the session files. \<open>matchesPattern\<close> compares the end of the path
  with the text after \<open>**\<close> as it stands, star included: for the state directory
  \<open>/home/u/.openclaw\<close> the file \<open>/home/u/.openclaw/agents/a1/sessions/s.jsonl\<close> does not
  match the session pattern, the ingestor finds no source type for it among the default
  descriptors, and the watcher ignores its change.
\<close>

theorem C4_session_pattern_not_matched:
  "matchesPattern ''/home/u/.openclaw/agents/a1/sessions/s.jsonl''
       ''/home/u/.openclaw/agents/**/sessions/*.jsonl'' = Inr False
   \<and> getDefaultWatchedPaths ''/home/u/.openclaw''
       = [(''/home/u/.openclaw/agents/**/sessions/*.jsonl'', Session),
          (''/home/u/.openclaw/logs/cache-trace.jsonl'', CacheTrace),
          (''/tmp/openclaw/openclaw-*.log'', SystemLog)]
   \<and> getSourceTypeForFile (getDefaultWatchedPaths ''/home/u/.openclaw'')
       ''/home/u/.openclaw/agents/a1/sessions/s.jsonl'' = Inr None
   \<and> emitEvent (getDefaultWatchedPaths ''/home/u/.openclaw'') Change
       ''/home/u/.openclaw/agents/a1/sessions/s.jsonl'' = Inr None"
  by (simp add: emitEvent_def getDefaultWatchedPaths_def path_sep_def matchesPattern_def
      startsWith_def endsWith_def stripTrailingSlash_def stripLeadingSlash_def Let_def)

section \<open>The store and one ingestion pass\<close>

lemma stmt_run_all_result:
  "stmt_run_all fails now d batch = (d', r) \<Longrightarrow>
     tracked_files d' = tracked_files d \<and> transaction d' = transaction d
     \<and> (r = None \<longrightarrow> events d' = events d @ map (\<lambda>e. \<lparr>ev = e, ingested_at = now\<rparr>) batch
                      \<and> \<not> list_ex fails batch)
     \<and> (r \<noteq> None \<longrightarrow> r = Some StoreError \<and> list_ex fails batch)"
proof (induction batch arbitrary: d)
  case Nil
  then show ?case by auto
next
  case (Cons e es)
  show ?case
  proof (cases "fails e")
    case True
    with Cons.prems show ?thesis by auto
  next
    case False
    with Cons.prems have
      "stmt_run_all fails now (d\<lparr>events := events d @ [\<lparr>ev = e, ingested_at = now\<rparr>]\<rparr>) es = (d', r)"
      by simp
    from Cons.IH [OF this] False show ?thesis by auto
  qed
qed

text \<open>A batch that is committed appends its rows and nothing else.\<close>

lemma insertEventsBatch_ok:
  assumes "insertEventsBatch fails now d batch = (d', None)" and "transaction d = None"
  shows "d' = d\<lparr>events := events d @ map (\<lambda>e. \<lparr>ev = e, ingested_at = now\<rparr>) batch\<rparr>
         \<and> \<not> list_ex fails batch"
proof (cases "batch = []")
  case True
  with assms show ?thesis by (simp add: insertEventsBatch_def)
next
  case False
  obtain d1 r where run: "stmt_run_all fails now (exec_BEGIN d) batch = (d1, r)"
    by (cases "stmt_run_all fails now (exec_BEGIN d) batch") auto
  with assms False have r: "r = None" and d': "d' = exec_COMMIT d1"
    by (auto simp: insertEventsBatch_def split: option.splits)
  from stmt_run_all_result [OF run] r
  have "tracked_files d1 = tracked_files d"
    and "events d1 = events d @ map (\<lambda>e. \<lparr>ev = e, ingested_at = now\<rparr>) batch"
    and "\<not> list_ex fails batch"
    by (auto simp: exec_BEGIN_def)
  with d' assms(2) show ?thesis
    by (simp add: exec_COMMIT_def)
qed

text \<open>A batch that throws is rolled back as a whole: the store is as it was.\<close>

lemma insertEventsBatch_fail:
  assumes "insertEventsBatch fails now d batch = (d', Some err)" and "transaction d = None"
  shows "d' = d \<and> err = StoreError \<and> list_ex fails batch"
proof -
  from assms(1) have ne: "batch \<noteq> []"
    by (auto simp: insertEventsBatch_def split: if_splits)
  obtain d1 r where run: "stmt_run_all fails now (exec_BEGIN d) batch = (d1, r)"
    by (cases "stmt_run_all fails now (exec_BEGIN d) batch") auto
  with assms ne have r: "r = Some err" and d': "d' = exec_ROLLBACK d1"
    by (auto simp: insertEventsBatch_def split: option.splits)
  from stmt_run_all_result [OF run] r
  have "tracked_files d1 = tracked_files d" and "transaction d1 = Some (events d)"
    and "err = StoreError" and "list_ex fails batch"
    by (auto simp: exec_BEGIN_def)
  with d' assms(2) show ?thesis
    by (simp add: exec_ROLLBACK_def)
qed

lemma insertEvents_loop_post:
  assumes "insertEvents_loop fails now bs evs d i = Some y"
  shows "transaction d = None \<longrightarrow> loop_post fails now bs evs d i y"
proof (rule insertEvents_loop.raw_induct
    [where P = "\<lambda>fails now bs evs d i y. transaction d = None \<longrightarrow> loop_post fails now bs evs d i y",
     OF _ assms], goal_cases)
  case (1 lp fails now bs evs d i y)
  show ?case
  proof
    assume tx: "transaction d = None"
    show "loop_post fails now bs evs d i y"
    proof (cases "i < length evs")
      case False
      with 1(2) have "y = (d, None)" by simp
      with False tx show ?thesis
        by (auto simp: loop_post_def intro!: exI [of _ 0])
    next
      case True
      obtain d1 r where b: "insertEventsBatch fails now d (take bs (drop i evs)) = (d1, r)"
        by (cases "insertEventsBatch fails now d (take bs (drop i evs))") auto
      show ?thesis
      proof (cases r)
        case (Some err)
        with b True 1(2) have y: "y = (d1, Some err)" by simp
        from insertEventsBatch_fail [OF b [unfolded Some] tx]
        have "d1 = d" "err = StoreError" "list_ex fails (take bs (drop i evs))" by auto
        with y True tx show ?thesis
          by (auto simp: loop_post_def intro!: exI [of _ 0])
      next
        case None
        with b True 1(2) have rec: "lp fails now bs evs d1 (i + bs) = Some y" by simp
        from insertEventsBatch_ok [OF b [unfolded None] tx]
        have d1: "d1 = d\<lparr>events := events d @ map (\<lambda>e. \<lparr>ev = e, ingested_at = now\<rparr>) (take bs (drop i evs))\<rparr>"
          and nf: "\<not> list_ex fails (take bs (drop i evs))"
          by simp_all
        with tx have tx1: "transaction d1 = None" by simp
        from 1(1) [OF rec] tx1 have post: "loop_post fails now bs evs d1 (i + bs) y" by simp
        then obtain k where
          k1: "events (fst y) = events d1 @ map (\<lambda>e. \<lparr>ev = e, ingested_at = now\<rparr>) (take (k * bs) (drop (i + bs) evs))"
          and k3: "\<not> list_ex fails (take (k * bs) (drop (i + bs) evs))"
          and k2: "(case snd y of
                  None \<Rightarrow> length evs \<le> (i + bs) + k * bs
                | Some err \<Rightarrow> err = StoreError \<and> (i + bs) + k * bs < length evs
                     \<and> list_ex fails (take bs (drop ((i + bs) + k * bs) evs)))"
          unfolding loop_post_def by blast
        have split: "take (Suc k * bs) (drop i evs)
            = take bs (drop i evs) @ take (k * bs) (drop (i + bs) evs)"
          by (simp add: take_add add.commute)
        have "events (fst y) = events d @ map (\<lambda>e. \<lparr>ev = e, ingested_at = now\<rparr>) (take (Suc k * bs) (drop i evs))"
          using k1 d1 by (simp only: split) simp
        moreover have "\<not> list_ex fails (take (Suc k * bs) (drop i evs))"
          using nf k3 by (simp only: split list_ex_append) simp
        moreover have "(case snd y of
                  None \<Rightarrow> length evs \<le> i + Suc k * bs
                | Some err \<Rightarrow> err = StoreError \<and> i + Suc k * bs < length evs
                     \<and> list_ex fails (take bs (drop (i + Suc k * bs) evs)))"
          using k2 by (simp add: add.assoc split: option.splits)
        moreover from post d1 have "tracked_files (fst y) = tracked_files d" "transaction (fst y) = None"
          by (simp_all add: loop_post_def)
        ultimately show ?thesis
          unfolding loop_post_def by blast
      qed
    qed
  qed
qed

text \<open>With a positive batch size the loop of \<open>insertEvents\<close> returns.\<close>

lemma insertEvents_loop_returns:
  "0 < bs \<Longrightarrow> \<exists>y. insertEvents_loop fails now bs evs d i = Some y"
proof (induction "length evs - i" arbitrary: d i rule: less_induct)
  case less
  show ?case
  proof (cases "i < length evs")
    case False
    then show ?thesis by (subst insertEvents_loop.simps) simp
  next
    case True
    obtain d1 r where b: "insertEventsBatch fails now d (take bs (drop i evs)) = (d1, r)"
      by (cases "insertEventsBatch fails now d (take bs (drop i evs))") auto
    show ?thesis
    proof (cases r)
      case (Some err)
      with b True show ?thesis by (subst insertEvents_loop.simps) simp
    next
      case None
      from less.prems True have "length evs - (i + bs) < length evs - i" by simp
      from less.hyps [OF this less.prems]
      obtain y where "insertEvents_loop fails now bs evs d1 (i + bs) = Some y" by blast
      with b None True show ?thesis by (subst insertEvents_loop.simps) simp
    qed
  qed
qed

text \<open>A batch with a row the engine refuses throws and leaves the store as it was.\<close>

lemma insertEventsBatch_refused:
  assumes "list_ex fails batch" and "transaction d = None"
  shows "insertEventsBatch fails now d batch = (d, Some StoreError)"
proof -
  obtain d1 r where b: "insertEventsBatch fails now d batch = (d1, r)"
    by (cases "insertEventsBatch fails now d batch") auto
  show ?thesis
  proof (cases r)
    case None
    from insertEventsBatch_ok [OF b [unfolded None] assms(2)] assms(1) show ?thesis by simp
  next
    case (Some err)
    from insertEventsBatch_fail [OF b [unfolded Some] assms(2)] b Some show ?thesis by simp
  qed
qed

text \<open>
  With a positive batch size and a row the engine refuses among the events from \<open>i\<close> on,
  the loop throws at the first batch that holds such a row.
\<close>

lemma insertEvents_loop_refused:
  assumes bs: "0 < bs" and tx: "transaction d = None" and rf: "list_ex fails (drop i evs)"
  shows "\<exists>d' k. insertEvents_loop fails now bs evs d i = Some (d', Some StoreError)
           \<and> tracked_files d' = tracked_files d \<and> transaction d' = None
           \<and> events d' = events d @ map (\<lambda>e. \<lparr>ev = e, ingested_at = now\<rparr>) (take (k * bs) (drop i evs))
           \<and> \<not> list_ex fails (take (k * bs) (drop i evs))
           \<and> i + k * bs < length evs
           \<and> list_ex fails (take bs (drop (i + k * bs) evs))"
proof -
  from insertEvents_loop_returns [OF bs]
  obtain y where lp: "insertEvents_loop fails now bs evs d i = Some y" by blast
  from insertEvents_loop_post [OF lp] tx have "loop_post fails now bs evs d i y" by simp
  then obtain k where tf: "tracked_files (fst y) = tracked_files d" "transaction (fst y) = None"
    and ev: "events (fst y) = events d @ map (\<lambda>e. \<lparr>ev = e, ingested_at = now\<rparr>) (take (k * bs) (drop i evs))"
    and nf: "\<not> list_ex fails (take (k * bs) (drop i evs))"
    and k: "(case snd y of
               None \<Rightarrow> length evs \<le> i + k * bs
             | Some err \<Rightarrow> err = StoreError \<and> i + k * bs < length evs
                  \<and> list_ex fails (take bs (drop (i + k * bs) evs)))"
    unfolding loop_post_def by blast
  show ?thesis
  proof (cases "snd y")
    case None
    with k have "take (k * bs) (drop i evs) = drop i evs" by simp
    with nf rf show ?thesis by simp
  next
    case (Some err)
    with k have "y = (fst y, Some StoreError)"
      by (cases y) simp
    with lp have "insertEvents_loop fails now bs evs d i = Some (fst y, Some StoreError)" by simp
    with tf ev nf k Some show ?thesis by auto
  qed
qed

text \<open>With a batch size of 0 it returns only when there is nothing to insert.\<close>

lemma insertEvents_loop_zero:
  assumes "insertEvents_loop fails now bs evs d i = Some y"
  shows "bs = 0 \<longrightarrow> i \<ge> length evs"
proof (rule insertEvents_loop.raw_induct
    [where P = "\<lambda>fails now bs evs d i y. bs = 0 \<longrightarrow> i \<ge> length evs", OF _ assms], goal_cases)
  case (1 lp fails now bs evs d i y)
  show ?case
  proof (intro impI, rule ccontr)
    assume z: "bs = 0" and "\<not> length evs \<le> i"
    then have lt: "i < length evs" by simp
    with z 1(2) have "lp fails now 0 evs d i = Some y"
      by (simp add: insertEventsBatch_def)
    from 1(1) [OF this] lt show False by simp
  qed
qed

lemma map_of_upsert_tracked:
  "map_of (upsert_tracked p new rows) p =
     Some (case map_of rows p of
             None \<Rightarrow> new
           | Some old \<Rightarrow> old\<lparr>byte_offset := byte_offset new, last_seen_at := last_seen_at new,
                             file_size := file_size new\<rparr>)"
  by (induction rows) auto

lemma getTrackedFile_updateTrackedFile:
  "getTrackedFile (updateTrackedFile now d p st byteOffset fileSize) p = Some (byteOffset, fileSize)"
  by (simp add: getTrackedFile_def updateTrackedFile_def map_of_upsert_tracked split: option.splits)

text \<open>A read from the end of the file returns no line.\<close>

lemma readNewLines_at_end:
  "fs p = Some content \<Longrightarrow>
     readNewLines fs p (int (length content)) None
       = ([], int (length content), int (length content), False)"
  by (simp add: readNewLines_def readLogSlice_def readLogSlice_start_def DEFAULT_MAX_BYTES_def Let_def)

text \<open>A read that returns a line returns the size of the file as the cursor.\<close>

lemma readNewLines_some_lines:
  assumes "readNewLines fs p c None = (ls, newCursor, fileSize, rst)" and "ls \<noteq> []"
  shows "\<exists>content. fs p = Some content \<and> newCursor = int (length content)
           \<and> fileSize = int (length content)"
proof (cases "fs p")
  case None
  with assms show ?thesis by (simp add: readNewLines_def readLogSlice_def Let_def)
next
  case (Some content)
  with assms show ?thesis
    by (auto simp: readNewLines_def readLogSlice_def Let_def split: prod.splits if_splits)
qed

lemma insertEvents_closed:
  "insertEvents env s evs = Some (s', r) \<Longrightarrow> s' = s\<lparr>db := db s'\<rparr>"
  by (auto simp: insertEvents_def split: option.splits)

text \<open>With a positive batch size \<open>ingestFile\<close> returns, normally or with an exception.\<close>

lemma ingestFile_returns:
  assumes "0 < batchSize s"
  shows "\<exists>s' r. ingestFile env s p st = Some (s', r)"
proof -
  have ins: "\<exists>s' r. insertEvents env s evs = Some (s', r)" for evs
  proof -
    from insertEvents_loop_returns [OF assms]
    obtain y where "insertEvents_loop (rowFails env) (clock env) (batchSize s) evs (db s) 0 = Some y"
      by blast
    then show ?thesis by (cases y) (simp add: insertEvents_def)
  qed
  show ?thesis
  proof (cases "closed s")
    case True
    then show ?thesis by (simp add: ingestFile_def)
  next
    case False
    obtain ls newCursor fileSize rst
      where rd: "readNewLines (files env) p
           (case getTrackedFile (db s) p of None \<Rightarrow> 0 | Some (byteOffset, sz) \<Rightarrow> byteOffset) None
         = (ls, newCursor, fileSize, rst)"
      by (metis prod_cases4)
    show ?thesis
    proof (cases "parseLines (getParser st (runtime env)) ls p")
      case (Inl err)
      with False rd show ?thesis by (simp add: ingestFile_def Let_def)
    next
      case (Inr evs)
      from ins [of evs] obtain s1 r where "insertEvents env s evs = Some (s1, r)" by blast
      with False rd Inr show ?thesis
        by (cases r) (simp_all add: ingestFile_def Let_def)
    qed
  qed
qed

lemmas example_defs = example_runtime_def example_log_def example_ingestor_def example_env_def
  example_event_def example_row_def example_store_def example_tracked_def

lemmas eval_defs = ingestFile_def readNewLines_def readLogSlice_def readLogSlice_start_def
  DEFAULT_MAX_BYTES_def dropTrailingEmpty_def getTrackedFile_def getParser_def
  parseSystemLogLine_def trim_def trimStart.simps trimEnd.simps leadingWhiteSpace_def
  trailingWhiteSpace_def whiteSpaces_def startsWith_def endsWith_def truthy_def isObjectType_def
  extractLogLevel_def extractSubsystem_def extractMessage_def extractTimestamp_def
  systemLogEventType_def
  optSlice500_def getProp_def isString_def insertEvents_def insertEventsBatch_def
  exec_BEGIN_def exec_COMMIT_def exec_ROLLBACK_def updateTrackedFile_def Let_def

text \<open>A pass that follows a pass that returned normally, over the same bytes, does nothing.\<close>

lemma ingestFile_again:
  assumes first: "ingestFile env s p st = Some (s1, Inr n)"
      and same: "files env' = files env"
  shows "ingestFile env' s1 p st = Some (s1, Inr 0)"
proof (cases "closed s")
  case True
  with first have "s1 = s" by (simp add: ingestFile_def)
  with True show ?thesis by (simp add: ingestFile_def)
next
  case False
  define c where "c = (case getTrackedFile (db s) p of None \<Rightarrow> 0 | Some (byteOffset, sz) \<Rightarrow> byteOffset)"
  obtain ls newCursor fileSize rst
    where rd: "readNewLines (files env) p c None = (ls, newCursor, fileSize, rst)"
    by (cases "readNewLines (files env) p c None") auto
  show ?thesis
  proof (cases "ls = []")
    case True
    with first False rd have "s1 = s"
      by (simp add: ingestFile_def c_def Let_def)
    with True False rd same show ?thesis
      by (simp add: ingestFile_def c_def Let_def)
  next
    case ne: False
    from readNewLines_some_lines [OF rd ne] obtain content
      where content: "files env p = Some content" "newCursor = int (length content)"
        "fileSize = int (length content)" by blast
    from first False rd ne obtain s' evs
      where s1: "s1 = s'\<lparr>db := updateTrackedFile (clock env) (db s') p st newCursor fileSize\<rparr>"
        and ins: "(if evs \<noteq> [] then insertEvents env s evs else Some (s, None)) = Some (s', None)"
      by (auto simp: ingestFile_def c_def Let_def split: sum.splits option.splits)
    from ins have "s' = s\<lparr>db := db s'\<rparr>"
      by (cases "evs = []") (auto dest: insertEvents_closed)
    with False have ncl: "\<not> closed s'"
      by (metis ingestor.select_convs ingestor.surjective ingestor.update_convs(1))
    with s1 have ncl1: "\<not> closed s1" by simp
    from s1 have tr: "getTrackedFile (db s1) p = Some (newCursor, fileSize)"
      by (simp add: getTrackedFile_updateTrackedFile)
    from readNewLines_at_end [of "files env" p content] content same
    have "readNewLines (files env') p newCursor None = ([], newCursor, newCursor, False)"
      by simp
    with ncl1 tr show ?thesis
      by (simp add: ingestFile_def Let_def)
  qed
qed

text \<open>
  C2. When a pass over a file has returned normally, a second pass over the same file with
  the same bytes returns 0 and leaves the ingestor as the first pass left it: no event is
  inserted and the tracked cursor of the file stays where it was.
\<close>

theorem C2_idempotent_resumption:
  assumes first: "ingestFile env s p st = Some (s1, Inr n)"
      and same: "files env' = files env"
  shows "ingestFile env' s1 p st = Some (s1, Inr 0)"
proof -
  from first same show ?thesis
    by (rule ingestFile_again)
qed

text \<open>
  C2, at the example log holding one record: the first pass inserts one event and sets the
  cursor to 3, the second inserts none and leaves the cursor at 3.
\<close>

theorem C2_idempotent_resumption_witness:
  "ingestFile (example_env ''{}\<newline>'' (\<lambda>e. False)) example_ingestor example_log SystemLog
     = Some (example_store (example_tracked 3 1000) [example_row ''{}''], Inr 1)
   \<and> ingestFile (example_env ''{}\<newline>'' (\<lambda>e. False))
       (example_store (example_tracked 3 1000) [example_row ''{}'']) example_log SystemLog
     = Some (example_store (example_tracked 3 1000) [example_row ''{}''], Inr 0)"
proof -
  have first: "ingestFile (example_env ''{}\<newline>'' (\<lambda>e. False)) example_ingestor example_log SystemLog
     = Some (example_store (example_tracked 3 1000) [example_row ''{}''], Inr 1)"
    by (simp add: example_defs eval_defs insertEvents_loop.simps)
  from first C2_idempotent_resumption [OF first refl] show ?thesis by simp
qed

text \<open>
  C5. Every pass should update the tracked-file record, also a pass that reads no line. The
  example log is tracked at offset 5 and was then emptied: the read observes cursor 0 and
  size 0 and returns no line, and the pass returns 0 with the record still at offset 5,
  size 5 and the old last-seen time 7.
\<close>

theorem C5_zero_line_pass_counterexample:
  "readNewLines (files (example_env [] (\<lambda>e. False))) example_log 5 None = ([], 0, 0, True)
   \<and> ingestFile (example_env [] (\<lambda>e. False)) (example_store (example_tracked 5 7) [])
        example_log SystemLog
     = Some (example_store (example_tracked 5 7) [], Inr 0)"
  by (simp add: example_defs eval_defs)

text \<open>
  C5, amended. On an open ingestor, a pass in which the read returns no line returns 0 and
  leaves the ingestor as it was (no event inserted, the tracked-file record untouched);
  with a positive batch size every pass returns, normally or with an exception; a pass in
  which the read returns a line and which returns normally leaves a tracked-file record
  for the file whose byte offset and file size are the cursor and the size the read
  returned and whose last-seen time is the clock's.
\<close>

theorem C5_tracked_record_after_pass:
  assumes "\<not> closed s"
    and "readNewLines (files env) p
           (case getTrackedFile (db s) p of None \<Rightarrow> 0 | Some (byteOffset, sz) \<Rightarrow> byteOffset) None
         = (ls, newCursor, fileSize, rst)"
  shows "(ls = [] \<longrightarrow> ingestFile env s p st = Some (s, Inr 0))
       \<and> (0 < batchSize s \<longrightarrow> (\<exists>s' r. ingestFile env s p st = Some (s', r)))
       \<and> (ls \<noteq> [] \<longrightarrow> (\<forall>s' n. ingestFile env s p st = Some (s', Inr n) \<longrightarrow>
             (\<exists>row. map_of (tracked_files (db s')) p = Some row \<and> byte_offset row = newCursor
                 \<and> file_size row = fileSize \<and> last_seen_at row = clock env)))"
proof (intro conjI impI allI)
  assume "ls = []"
  with assms show "ingestFile env s p st = Some (s, Inr 0)"
    by (simp add: ingestFile_def Let_def)
next
  assume "0 < batchSize s"
  then show "\<exists>s' r. ingestFile env s p st = Some (s', r)"
    by (rule ingestFile_returns)
next
  fix s' n
  assume ne: "ls \<noteq> []" and ok: "ingestFile env s p st = Some (s', Inr n)"
  with assms obtain s1
    where "s' = s1\<lparr>db := updateTrackedFile (clock env) (db s1) p st newCursor fileSize\<rparr>"
    by (auto simp: ingestFile_def Let_def split: sum.splits option.splits)
  then show "\<exists>row. map_of (tracked_files (db s')) p = Some row \<and> byte_offset row = newCursor
                 \<and> file_size row = fileSize \<and> last_seen_at row = clock env"
    by (auto simp: updateTrackedFile_def map_of_upsert_tracked split: option.splits)
qed

text \<open>
  C5, amended, at the example log: with one record in it the pass returns 1 and the
  record of the file has offset 3, size 3 and the time 1000; with no byte in it the pass
  returns 0 and the ingestor is unchanged.
\<close>

theorem C5_tracked_record_after_pass_witness:
  "ingestFile (example_env ''{}\<newline>'' (\<lambda>e. False)) example_ingestor example_log SystemLog
     = Some (example_store (example_tracked 3 1000) [example_row ''{}''], Inr 1)
   \<and> map_of (tracked_files (db (example_store (example_tracked 3 1000) [example_row ''{}''])))
        example_log
     = Some \<lparr>source_type = SystemLog, byte_offset = 3, last_seen_at = 1000, file_size = 3\<rparr>
   \<and> ingestFile (example_env [] (\<lambda>e. False)) example_ingestor example_log SystemLog
     = Some (example_ingestor, Inr 0)"
proof -
  have nc: "\<not> closed example_ingestor" by (simp add: example_ingestor_def)
  have r1: "readNewLines (files (example_env ''{}\<newline>'' (\<lambda>e. False))) example_log
           (case getTrackedFile (db example_ingestor) example_log of
              None \<Rightarrow> 0 | Some (byteOffset, sz) \<Rightarrow> byteOffset) None
         = ([''{}''], 3, 3, False)"
    by (simp add: example_defs eval_defs)
  have r0: "readNewLines (files (example_env [] (\<lambda>e. False))) example_log
           (case getTrackedFile (db example_ingestor) example_log of
              None \<Rightarrow> 0 | Some (byteOffset, sz) \<Rightarrow> byteOffset) None
         = ([], 0, 0, False)"
    by (simp add: example_defs eval_defs)
  have pass: "ingestFile (example_env ''{}\<newline>'' (\<lambda>e. False)) example_ingestor example_log SystemLog
     = Some (example_store (example_tracked 3 1000) [example_row ''{}''], Inr 1)"
    by (simp add: example_defs eval_defs insertEvents_loop.simps)
  from C5_tracked_record_after_pass [OF nc r1, of SystemLog] pass
  have "\<exists>row. map_of (tracked_files (db (example_store (example_tracked 3 1000) [example_row ''{}''])))
                 example_log = Some row
           \<and> byte_offset row = 3 \<and> file_size row = 3 \<and> last_seen_at row = 1000"
    by (simp add: example_env_def)
  moreover have "map_of (tracked_files (db (example_store (example_tracked 3 1000) [example_row ''{}''])))
        example_log
     = Some \<lparr>source_type = SystemLog, byte_offset = 3, last_seen_at = 1000, file_size = 3\<rparr>"
    by (simp add: example_defs)
  moreover from C5_tracked_record_after_pass [OF nc r0, of SystemLog]
  have "ingestFile (example_env [] (\<lambda>e. False)) example_ingestor example_log SystemLog
     = Some (example_ingestor, Inr 0)"
    by simp
  ultimately show ?thesis using pass by simp
qed

text \<open>
  C7. Every operation on a closed ingestor should fail with an error. \<open>ingestFile\<close> on the
  closed example ingestor throws nothing: it returns 0.
\<close>

theorem C7_ingestFile_after_close_counterexample:
  "closed (close example_ingestor)
   \<and> ingestFile (example_env ''{}\<newline>'' (\<lambda>e. False)) (close example_ingestor) example_log SystemLog
     = Some (close example_ingestor, Inr 0)"
  by (simp add: close_def stopWatching_def example_ingestor_def ingestFile_def)

text \<open>
  C7, amended. After \<open>close\<close>, the operations \<open>startWatching\<close>, \<open>ingestExisting\<close> and
  \<open>status\<close> fail at once with the error that the ingestor is closed and change nothing;
  \<open>ingestFile\<close> returns 0 and changes nothing; \<open>close\<close> is idempotent.
\<close>

theorem C7_after_close:
  "closed (close s)
   \<and> startWatching env (close s) = Some (close s, Inl IngestorClosed)
   \<and> ingestExisting env (close s) = Some (close s, Inl IngestorClosed)
   \<and> status (close s) = Inl IngestorClosed
   \<and> ingestFile env (close s) p st = Some (close s, Inr 0)
   \<and> close (close s) = close s"
proof -
  have c: "closed (close s)" by (simp add: close_def stopWatching_def)
  then show ?thesis
    by (simp add: startWatching_def ingestExisting_def status_def ingestFile_def)
       (simp add: close_def)
qed

text \<open>
  C3. A failure of a batch insert should roll back every event of the pass. With batches
  of one event, the example log holds two records and the engine refuses the second:
  the pass throws the store error and the tracked files stay empty, but the event of the
  first record, committed by the first batch, stays in the events table.
\<close>

theorem C3_earlier_batches_persist_counterexample:
  "ingestFile (example_env ''{}\<newline>{ }\<newline>'' (\<lambda>e. rawJson e = ''{ }'')) example_ingestor
       example_log SystemLog
   = Some (example_store [] [example_row ''{}''], Inl StoreError)"
  by (simp add: example_defs eval_defs insertEvents_loop.simps)

text \<open>
  C3, amended. On an open ingestor with a positive batch size, when the lines read in a
  pass over a file parse to \<open>evs\<close> and the engine refuses a row of \<open>evs\<close>: a batch that
  holds a refused row throws the store error and leaves the store as it was; the insert
  of the pass throws the store error, and so does \<open>ingestFile\<close>; some batch number \<open>k\<close>
  holds a refused row and no batch before it does; the events table has gained the rows of
  the \<open>k\<close> batches before it and no row of the failing batch or of a later one, and the
  tracked files are as before the pass (the cursor is not advanced). When all events fit
  in one batch the events table is as before the pass. In a pass of
  \<open>processPendingFiles\<close> the exception is caught: the turn ends normally and the remaining
  files are still to be done.
\<close>

theorem C3_failed_insert:
  assumes nc: "\<not> closed s" and tx: "transaction (db s) = None"
    and rd: "readNewLines (files env) p
           (case getTrackedFile (db s) p of None \<Rightarrow> 0 | Some (byteOffset, sz) \<Rightarrow> byteOffset) None
         = (ls, newCursor, fileSize, rst)"
    and ne: "ls \<noteq> []"
    and parsed: "parseLines (getParser st (runtime env)) ls p = Inr evs"
    and refused: "list_ex (rowFails env) evs"
    and bs: "0 < batchSize s"
  shows "\<exists>s' k. insertEvents env s evs = Some (s', Some StoreError)
          \<and> ingestFile env s p st = Some (s', Inl StoreError)
          \<and> k * batchSize s < length evs
          \<and> list_ex (rowFails env) (take (batchSize s) (drop (k * batchSize s) evs))
          \<and> \<not> list_ex (rowFails env) (take (k * batchSize s) evs)
          \<and> insertEventsBatch (rowFails env) (clock env) (db s')
                (take (batchSize s) (drop (k * batchSize s) evs))
              = (db s', Some StoreError)
          \<and> events (db s') = events (db s)
               @ map (\<lambda>e. \<lparr>ev = e, ingested_at = clock env\<rparr>) (take (k * batchSize s) evs)
          \<and> tracked_files (db s') = tracked_files (db s)
          \<and> getTrackedFile (db s') p = getTrackedFile (db s) p
          \<and> (length evs \<le> batchSize s \<longrightarrow> events (db s') = events (db s))
          \<and> (getSourceTypeForFile (watchedPaths s) p = Inr (Some st) \<longrightarrow>
               processPendingFiles_turn env s (p # rest) = Some (s', Some rest, Some p, None))"
proof -
  from refused have evs: "evs \<noteq> []" by auto
  from refused have "list_ex (rowFails env) (drop 0 evs)" by simp
  from insertEvents_loop_refused [OF bs tx this, of "clock env"]
  obtain d' k
    where lp: "insertEvents_loop (rowFails env) (clock env) (batchSize s) evs (db s) 0
                 = Some (d', Some StoreError)"
      and tf: "tracked_files d' = tracked_files (db s)" and tx': "transaction d' = None"
      and ev: "events d' = events (db s)
                 @ map (\<lambda>e. \<lparr>ev = e, ingested_at = clock env\<rparr>) (take (k * batchSize s) evs)"
      and nf: "\<not> list_ex (rowFails env) (take (k * batchSize s) evs)"
      and lt: "k * batchSize s < length evs"
      and fl: "list_ex (rowFails env) (take (batchSize s) (drop (k * batchSize s) evs))"
    by auto
  define s' where "s' = s\<lparr>db := d'\<rparr>"
  have db: "db s' = d'" by (simp add: s'_def)
  from lp have ins: "insertEvents env s evs = Some (s', Some StoreError)"
    by (simp add: insertEvents_def s'_def)
  with nc rd ne parsed evs have ing: "ingestFile env s p st = Some (s', Inl StoreError)"
    by (simp add: ingestFile_def Let_def)
  from insertEventsBatch_refused [OF fl tx']
  have batch: "insertEventsBatch (rowFails env) (clock env) (db s')
                (take (batchSize s) (drop (k * batchSize s) evs))
              = (db s', Some StoreError)"
    by (simp add: db)
  from tf have tr: "getTrackedFile (db s') p = getTrackedFile (db s) p"
    by (simp add: getTrackedFile_def db)
  have small: "length evs \<le> batchSize s \<longrightarrow> events (db s') = events (db s)"
  proof
    assume le: "length evs \<le> batchSize s"
    have "k = 0"
    proof (cases k)
      case (Suc j)
      then have "batchSize s \<le> k * batchSize s" by simp
      with lt le show ?thesis by linarith
    qed simp
    with ev show "events (db s') = events (db s)" by (simp add: db)
  qed
  have turn: "getSourceTypeForFile (watchedPaths s) p = Inr (Some st) \<longrightarrow>
               processPendingFiles_turn env s (p # rest) = Some (s', Some rest, Some p, None)"
    using nc ing by (simp add: processPendingFiles_turn_def)
  from ev have ev': "events (db s') = events (db s)
               @ map (\<lambda>e. \<lparr>ev = e, ingested_at = clock env\<rparr>) (take (k * batchSize s) evs)"
    by (simp add: db)
  from tf have tf': "tracked_files (db s') = tracked_files (db s)"
    by (simp add: db)
  from ins ing lt fl nf batch ev' tf' tr small turn show ?thesis
    by blast
qed

text \<open>
  C3, amended, at the example log with one record that the engine refuses: the pass throws
  the store error, the store is as before the pass, and a pass of \<open>processPendingFiles\<close>
  over this file and a second one goes on to the second.
\<close>

theorem C3_failed_insert_witness:
  "ingestFile (example_env ''{}\<newline>'' (\<lambda>e. True)) example_ingestor example_log SystemLog
     = Some (example_ingestor, Inl StoreError)
   \<and> events (db example_ingestor) = []
   \<and> processPendingFiles_turn (example_env ''{}\<newline>'' (\<lambda>e. True)) example_ingestor
        [example_log, ''/s/logs/cache-trace.jsonl'']
     = Some (example_ingestor, Some [''/s/logs/cache-trace.jsonl''], Some example_log, None)"
proof -
  have nc: "\<not> closed example_ingestor" and tx: "transaction (db example_ingestor) = None"
    and bs: "0 < batchSize example_ingestor"
    by (simp_all add: example_ingestor_def)
  have rd: "readNewLines (files (example_env ''{}\<newline>'' (\<lambda>e. True))) example_log
           (case getTrackedFile (db example_ingestor) example_log of
              None \<Rightarrow> 0 | Some (byteOffset, sz) \<Rightarrow> byteOffset) None
         = ([''{}''], 3, 3, False)"
    by (simp add: example_defs eval_defs)
  have parsed: "parseLines (getParser SystemLog (runtime (example_env ''{}\<newline>'' (\<lambda>e. True))))
       [''{}''] example_log = Inr [example_event ''{}'']"
    by (simp add: example_defs eval_defs)
  have refused: "list_ex (rowFails (example_env ''{}\<newline>'' (\<lambda>e. True))) [example_event ''{}'']"
    by (simp add: example_env_def)
  have src: "getSourceTypeForFile (watchedPaths example_ingestor) example_log = Inr (Some SystemLog)"
    by (simp add: example_defs getDefaultWatchedPaths_def path_sep_def matchesPattern_def
        startsWith_def endsWith_def stripTrailingSlash_def stripLeadingSlash_def Let_def)
  have failed: "ingestFile (example_env ''{}\<newline>'' (\<lambda>e. True)) example_ingestor example_log SystemLog
     = Some (example_ingestor, Inl StoreError)"
    by (simp add: example_defs eval_defs insertEvents_loop.simps)
  from C3_failed_insert [OF nc tx rd _ parsed refused bs, of "[''/s/logs/cache-trace.jsonl'']"]
  obtain s' where ing: "ingestFile (example_env ''{}\<newline>'' (\<lambda>e. True)) example_ingestor example_log
          SystemLog = Some (s', Inl StoreError)"
    and turn: "getSourceTypeForFile (watchedPaths example_ingestor) example_log = Inr (Some SystemLog) \<longrightarrow>
       processPendingFiles_turn (example_env ''{}\<newline>'' (\<lambda>e. True)) example_ingestor
        [example_log, ''/s/logs/cache-trace.jsonl'']
     = Some (s', Some [''/s/logs/cache-trace.jsonl''], Some example_log, None)"
    by blast
  from ing failed have "s' = example_ingestor" by simp
  with failed turn src show ?thesis by (simp add: example_ingestor_def)
qed

section \<open>Properties of the parsers\<close>

lemma notValidJSON_null: "notValidJSON rt line \<Longrightarrow> getParser st rt line file = Inr None"
  by (cases st)
     (simp_all add: notValidJSON_def getParser_def parseCacheTraceLine_def parseSystemLogLine_def
        parseSessionLine_def Let_def)

lemma missingRequiredField_null:
  "missingRequiredField st rt line \<Longrightarrow> getParser st rt line file = Inr None"
proof (cases st)
  case SystemLog
  assume "missingRequiredField st rt line"
  with SystemLog show ?thesis
    by (simp add: missingRequiredField_def requiredFields_def split: option.splits)
next
  case CacheTrace
  assume "missingRequiredField st rt line"
  with CacheTrace show ?thesis
    by (auto simp: missingRequiredField_def requiredFields_def getParser_def parseCacheTraceLine_def
        isCacheTraceEvent_def isString_def isNumber_def Let_def split: option.splits)
next
  case Session
  assume "missingRequiredField st rt line"
  with Session show ?thesis
    by (auto simp: missingRequiredField_def requiredFields_def getParser_def parseSessionLine_def
        truthy_def Let_def split: option.splits)
qed

text \<open>Of every batch, the lines of the two kinds can be left out: the outcome is the same.\<close>

lemma parseLines_without_malformed:
  "parseLines (getParser st rt) ls file
     = parseLines (getParser st rt)
         (filter (\<lambda>l. \<not> (notValidJSON rt l \<or> missingRequiredField st rt l)) ls) file"
proof (induction ls)
  case Nil
  show ?case by simp
next
  case (Cons l ls)
  show ?case
  proof (cases "notValidJSON rt l \<or> missingRequiredField st rt l")
    case True
    then have "getParser st rt l file = Inr None"
      using notValidJSON_null missingRequiredField_null by blast
    with True Cons show ?thesis by simp
  next
    case False
    with Cons show ?thesis by (simp split: sum.splits option.splits)
  qed
qed

lemmas trace_defs = example_trace_file_def example_trace_line_def example_bad_trace_line_def
  example_trace_runtime_def example_trace_event_def example_trace_env_def

lemmas trim_defs = trim_def trimStart.simps trimEnd.simps leadingWhiteSpace_def
  trailingWhiteSpace_def whiteSpaces_def startsWith_def endsWith_def

lemmas cache_trace_defs = getParser_def parseCacheTraceLine_def isCacheTraceEvent_def
  cacheTracePreview_def template_def ToString_def optSlice500_def truthy_def isObjectType_def
  isString_def isNumber_def getProp_def Let_def

lemma example_trace_line_parsed:
  "getParser CacheTrace example_trace_runtime example_trace_line example_trace_file
     = Inr (Some example_trace_event)"
  by (simp add: trace_defs trim_defs cache_trace_defs)

lemma example_bad_trace_line_throws:
  "getParser CacheTrace example_trace_runtime example_bad_trace_line example_trace_file
     = Inl TypeError"
  by (simp add: trace_defs trim_defs cache_trace_defs)

lemma example_bad_trace_line_kind:
  "\<not> notValidJSON example_trace_runtime example_bad_trace_line
   \<and> \<not> missingRequiredField CacheTrace example_trace_runtime example_bad_trace_line"
  by (simp add: notValidJSON_def missingRequiredField_def requiredFields_def trace_defs trim_defs
      getProp_def)

lemma example_trace_read:
  "readNewLines (files example_trace_env) example_trace_file 0 None
     = ([example_trace_line, example_bad_trace_line], 71, 71, False)"
  by (simp add: trace_defs readNewLines_def readLogSlice_def readLogSlice_start_def
      DEFAULT_MAX_BYTES_def dropTrailingEmpty_def Let_def)

text \<open>
  C10. One record that a parser cannot handle should never fail the ingestion of the rest
  of the file: the parser should return \<open>null\<close> for it, and the well-formed lines of the
  batch should still give their events. A cache trace holds two records, both valid JSON
  with \<open>ts\<close>, \<open>seq\<close> and \<open>stage\<close>; the second has the number 5 as its \<open>note\<close>. Alone, the
  first gives its event. On the second the parser throws a TypeError (a number has no
  \<open>slice\<close>), \<open>parseLines\<close> throws it for the batch of the two, and the pass over the file
  throws it: no event is stored, the event of the first record included, and the cursor
  stays where it was, so that every later pass over the file fails in the same way.
\<close>

theorem C10_parser_exception_fails_batch:
  "parseLines (getParser CacheTrace example_trace_runtime) [example_trace_line] example_trace_file
     = Inr [example_trace_event]
   \<and> \<not> notValidJSON example_trace_runtime example_bad_trace_line
   \<and> \<not> missingRequiredField CacheTrace example_trace_runtime example_bad_trace_line
   \<and> getParser CacheTrace example_trace_runtime example_bad_trace_line example_trace_file
     = Inl TypeError
   \<and> parseLines (getParser CacheTrace example_trace_runtime)
        [example_trace_line, example_bad_trace_line] example_trace_file
     = Inl TypeError
   \<and> ingestFile example_trace_env example_ingestor example_trace_file CacheTrace
     = Some (example_ingestor, Inl TypeError)"
proof -
  have one: "parseLines (getParser CacheTrace example_trace_runtime) [example_trace_line]
       example_trace_file = Inr [example_trace_event]"
    by (simp add: example_trace_line_parsed)
  have two: "parseLines (getParser CacheTrace example_trace_runtime)
        [example_trace_line, example_bad_trace_line] example_trace_file = Inl TypeError"
    by (simp add: example_trace_line_parsed example_bad_trace_line_throws)
  have rt: "runtime example_trace_env = example_trace_runtime"
    by (simp add: example_trace_env_def)
  have "ingestFile example_trace_env example_ingestor example_trace_file CacheTrace
     = Some (example_ingestor, Inl TypeError)"
    using example_trace_read two
    by (simp add: ingestFile_def getTrackedFile_def example_ingestor_def rt Let_def)
  with one two example_bad_trace_line_kind example_bad_trace_line_throws show ?thesis
    by simp
qed

text \<open>
  C6. The raw-text field should be the input line, character for character. The
  system-log line \<open>{}\<close> followed by a space gives an event whose \<open>rawJson\<close> is \<open>{}\<close>, without
  the space.
\<close>

theorem C6_rawJson_trimmed_counterexample:
  "getParser SystemLog example_runtime ''{} '' example_log = Inr (Some (example_event ''{}''))
   \<and> rawJson (example_event ''{}'') \<noteq> ''{} ''"
  by (simp add: example_defs eval_defs)

text \<open>
  C6, amended. Whenever one of the three parsers produces an event for a line, the event's
  \<open>rawJson\<close> is the line without its leading and trailing white space.
\<close>

theorem C6_rawJson_is_trimmed_line:
  "getParser st rt line file = Inr (Some e) \<Longrightarrow> rawJson e = trim line"
  by (cases st)
     (auto simp: getParser_def parseCacheTraceLine_def parseSystemLogLine_def parseSessionLine_def
        Let_def split: if_splits option.splits sum.splits)

text \<open>C6, amended, at the system-log line \<open>{ }\<close> with a space before it.\<close>

theorem C6_rawJson_is_trimmed_line_witness:
  "getParser SystemLog example_runtime '' { }'' example_log = Inr (Some (example_event ''{ }''))
   \<and> rawJson (example_event ''{ }'') = trim '' { }''"
proof -
  have p: "getParser SystemLog example_runtime '' { }'' example_log = Inr (Some (example_event ''{ }''))"
    by (simp add: example_defs eval_defs)
  from p C6_rawJson_is_trimmed_line [OF p] show ?thesis by simp
qed


section \<open>Debounced processing\<close>






























end
